theory Spec2Isabelle
  imports Main "HOL-Library.AList" "HOL-Library.Char_ord" "HOL-Library.List_Lexorder"
begin

section \<open>Strings as the plugin uses them\<close>

text \<open>
  JavaScript strings are modelled as \<^typ>\<open>string\<close>. The few characters that cannot
  be written inside a string literal are named.
\<close>

definition dquote :: char where
  "dquote = CHR 0x22"

definition squote :: char where
  "squote = CHR 0x27"

definition backslash :: char where
  "backslash = CHR 0x5C"

definition newline :: char where
  "newline = CHR 0x0A"

text \<open>\<^verbatim>\<open>str.replace(/"/g, '\\"').replace(/\n/g, ' ')\<close>\<close>

definition escapeYaml :: "string \<Rightarrow> string" where
  "escapeYaml str =
     map (\<lambda>c. if c = newline then CHR '' '' else c)
       (concat (map (\<lambda>c. if c = dquote then [backslash, dquote] else [c]) str))"

text \<open>\<^verbatim>\<open>s.startsWith(p)\<close> and \<^verbatim>\<open>s.endsWith(p)\<close>\<close>

definition startsWith :: "string \<Rightarrow> string \<Rightarrow> bool" where
  "startsWith s p = (take (length p) s = p)"

definition endsWith :: "string \<Rightarrow> string \<Rightarrow> bool" where
  "endsWith s p = (length p \<le> length s \<and> drop (length s - length p) s = p)"

text \<open>\<^verbatim>\<open>s.split(sep)\<close> for a one-character separator; the result is never empty.\<close>

fun split_chr :: "char \<Rightarrow> string \<Rightarrow> string list" where
  "split_chr sep [] = [[]]"
| "split_chr sep (c # cs) =
     (if c = sep then [] # split_chr sep cs
      else (case split_chr sep cs of
              [] \<Rightarrow> [[c]]
            | w # ws \<Rightarrow> (c # w) # ws))"

text \<open>\<^verbatim>\<open>parts.join(sep)\<close>\<close>

fun join_with :: "string \<Rightarrow> string list \<Rightarrow> string" where
  "join_with sep [] = []"
| "join_with sep [x] = x"
| "join_with sep (x # y # ys) = x @ sep @ join_with sep (y # ys)"

text \<open>\<^verbatim>\<open>xs.slice(-n)\<close>: the last \<open>n\<close> elements, all of them when there are fewer.\<close>

definition slice_last :: "nat \<Rightarrow> 'a list \<Rightarrow> 'a list" where
  "slice_last n xs = drop (length xs - n) xs"

text \<open>\<^verbatim>\<open>p.split("/").slice(0, -1).join("/")\<close>: the path without its last segment.\<close>

definition parent_dir :: "string \<Rightarrow> string" where
  "parent_dir p = join_with ''/'' (butlast (split_chr (CHR ''/'') p))"

text \<open>
  \<^verbatim>\<open>join(a, b)\<close> of the path module, on the paths the plugin builds: the segments
  separated by a slash.
\<close>

definition join :: "string \<Rightarrow> string \<Rightarrow> string" where
  "join a b = a @ ''/'' @ b"

text \<open>A non-negative integer inside a template literal: its decimal digits.\<close>

definition digit_chars :: string where
  "digit_chars = ''0123456789''"

function show_nat :: "nat \<Rightarrow> string" where
  "show_nat n =
     (if n < 10 then [digit_chars ! n]
      else show_nat (n div 10) @ [digit_chars ! (n mod 10)])"
  by pat_completeness auto
termination
  by (relation "measure id") auto

declare show_nat.simps [simp del]

definition show_int :: "int \<Rightarrow> string" where
  "show_int i = (if i < 0 then CHR ''-'' # show_nat (nat (- i)) else show_nat (nat i))"

section \<open>Regular expressions\<close>

text \<open>
  The fragment of JavaScript regular expressions that \<^verbatim>\<open>isValidDocId\<close> uses:
  character classes, concatenation, alternation (for \<^verbatim>\<open>?\<close>) and \<^verbatim>\<open>+\<close>.
  A pattern anchored by \<^verbatim>\<open>^\<close> and \<^verbatim>\<open>$\<close> (without the \<^verbatim>\<open>m\<close> flag) is tested
  against the whole string. A class is a range of characters, compared by their codes.
\<close>

datatype regex = Eps | Rng char char | Seq regex regex | Alt regex regex | Plus regex

fun splits :: "'a list \<Rightarrow> ('a list \<times> 'a list) list" where
  "splits [] = [([], [])]"
| "splits (x # xs) = ([], x # xs) # map (\<lambda>(u, v). (x # u, v)) (splits xs)"

lemma splits_length: "(u, v) \<in> set (splits s) \<Longrightarrow> length u + length v = length s"
  by (induction s arbitrary: u v) auto

lemma splits_snd_shorter:
  "(u, v) \<in> set (splits s) \<Longrightarrow> u \<noteq> [] \<Longrightarrow> length v < length s"
  using splits_length [of u v s] by (cases u) auto

function matches :: "regex \<Rightarrow> string \<Rightarrow> bool" where
  "matches Eps s = (s = [])"
| "matches (Rng lo hi) s = (case s of [c] \<Rightarrow> lo \<le> c \<and> c \<le> hi | _ \<Rightarrow> False)"
| "matches (Seq r1 r2) s =
     list_ex (\<lambda>p. matches r1 (fst p) \<and> matches r2 (snd p)) (splits s)"
| "matches (Alt r1 r2) s = (matches r1 s \<or> matches r2 s)"
| "matches (Plus r) s =
     list_ex (\<lambda>p. if fst p = [] then False
                   else matches r (fst p) \<and>
                     (if snd p = [] then True else matches (Plus r) (snd p)))
       (splits s)"
  by pat_completeness auto
termination
  by (relation "measures [\<lambda>(r, s). size r, \<lambda>(r, s). length s]")
     (auto simp: list_ex_iff dest: splits_snd_shorter)

declare matches.simps(5) [simp del]

text \<open>\<^verbatim>\<open>/^[a-z]+-[a-z]+-\d+(-\d+)?$/\<close>\<close>

definition lower :: regex where
  "lower = Rng (CHR ''a'') (CHR ''z'')"

definition digit :: regex where
  "digit = Rng (CHR ''0'') (CHR ''9'')"

definition hyphen :: regex where
  "hyphen = Rng (CHR ''-'') (CHR ''-'')"

definition docIdPattern :: regex where
  "docIdPattern =
     Seq (Plus lower)
       (Seq hyphen
         (Seq (Plus lower)
           (Seq hyphen
             (Seq (Plus digit)
               (Alt (Seq hyphen (Plus digit)) Eps)))))"

definition isValidDocId :: "string \<Rightarrow> bool" where
  "isValidDocId docId = matches docIdPattern docId"

section \<open>Identifier generation\<close>

definition ADJECTIVES :: "string list" where
  "ADJECTIVES =
    [''amber'', ''ancient'', ''autumn'', ''bold'', ''brave'', ''bright'', ''calm'', ''clever'',
     ''cool'', ''crimson'', ''curious'', ''daring'', ''deep'', ''eager'', ''elegant'', ''fierce'',
     ''gentle'', ''golden'', ''graceful'', ''happy'', ''hidden'', ''jade'', ''joyful'', ''kind'',
     ''lively'', ''lucky'', ''mighty'', ''misty'', ''modern'', ''mystic'', ''noble'', ''peaceful'',
     ''purple'', ''quiet'', ''rapid'', ''royal'', ''rustic'', ''serene'', ''silent'', ''silver'',
     ''smooth'', ''solid'', ''spring'', ''steady'', ''summer'', ''swift'', ''tender'', ''vivid'',
     ''warm'', ''wild'', ''wise'', ''young'', ''zealous'', ''azure'', ''blazing'', ''breezy'',
     ''cosmic'', ''crystal'', ''dawn'', ''dusk'']"

definition NOUNS :: "string list" where
  "NOUNS =
    [''apple'', ''arrow'', ''autumn'', ''beach'', ''bird'', ''bloom'', ''breeze'', ''brook'',
     ''canyon'', ''cloud'', ''coral'', ''crane'', ''crystal'', ''dolphin'', ''dream'', ''eagle'',
     ''field'', ''flame'', ''flower'', ''forest'', ''fountain'', ''garden'', ''gate'', ''glade'',
     ''grove'', ''harbor'', ''haven'', ''hill'', ''horizon'', ''island'', ''journey'', ''lake'',
     ''leaf'', ''meadow'', ''mirror'', ''mist'', ''moon'', ''mountain'', ''night'', ''ocean'',
     ''orchard'', ''peak'', ''pine'', ''pond'', ''rain'', ''ravine'', ''river'', ''road'',
     ''rock'', ''rose'', ''sands'', ''sea'', ''shade'', ''sky'', ''spring'', ''star'', ''stone'',
     ''stream'', ''sun'', ''sunset'', ''surf'', ''swan'', ''tide'', ''tower'', ''tree'',
     ''valley'', ''wave'', ''willow'', ''wind'', ''wood'']"

text \<open>
  \<^verbatim>\<open>Math.floor(Math.random() * n)\<close> is some index below \<open>n\<close>. The model reads the
  three draws of one \<^verbatim>\<open>generateDocId()\<close> call off a tape of naturals and reduces
  each modulo its range, so every index the code can draw is covered and no other.
\<close>

type_synonym draws = "nat \<times> nat \<times> nat"

definition generateDocId :: "draws \<Rightarrow> string" where
  "generateDocId d =
     (case d of (r1, r2, r3) \<Rightarrow>
        let adj = ADJECTIVES ! (r1 mod length ADJECTIVES);
            noun = NOUNS ! (r2 mod length NOUNS);
            num = r3 mod 900 + 100
        in adj @ ''-'' @ noun @ ''-'' @ show_nat num)"

section \<open>Errors, the project directory and the draft registry\<close>

text \<open>
  \<^verbatim>\<open>throw new Error(msg)\<close>: a tool either throws or returns its text. The one
  exception the code meets that it does not raise itself is the \<^verbatim>\<open>DataCloneError\<close> of
  \<^verbatim>\<open>structuredClone\<close>; its message is the runtime's.
\<close>

datatype error = Error string | DataCloneError

type_synonym tool_result = "error + string"

text \<open>A JavaScript value used as a condition: an optional string counts when it is
  present and not empty.\<close>

definition truthy :: "string option \<Rightarrow> bool" where
  "truthy v = (case v of None \<Rightarrow> False | Some s \<Rightarrow> s \<noteq> [])"

text \<open>\<^verbatim>\<open>v || ""\<close>\<close>

definition or_empty :: "string option \<Rightarrow> string" where
  "or_empty v = (case v of None \<Rightarrow> [] | Some s \<Rightarrow> s)"

record ctx =
  worktree :: "string option"
  directory :: string

datatype draft_status = StatusDraft | StatusCompiled

definition show_status :: "draft_status \<Rightarrow> string" where
  "show_status st = (case st of StatusDraft \<Rightarrow> ''draft'' | StatusCompiled \<Rightarrow> ''compiled'')"

record draft_info =
  title :: string
  preset :: string
  created_at :: string
  last_modified :: string
  source_markdown :: "string option"
  status :: draft_status

text \<open>\<^verbatim>\<open>DocRegistry\<close>: the object \<^verbatim>\<open>drafts\<close> keeps its keys in insertion order.\<close>

record DocRegistry =
  drafts :: "(string \<times> draft_info) list"

definition empty_registry :: DocRegistry where
  "empty_registry = \<lparr>drafts = []\<rparr>"

text \<open>
  What is on disk at the registry path: nothing, text that \<^verbatim>\<open>JSON.parse\<close> rejects
  (or a file that cannot be read), or the JSON text of a registry: what
  \<^verbatim>\<open>JSON.stringify\<close> writes and \<^verbatim>\<open>JSON.parse\<close> reads back. JSON of another shape
  is outside the type \<^verbatim>\<open>DocRegistry\<close> that \<^verbatim>\<open>readRegistry\<close> declares for its result.
  The registry file is kept apart from the other files of the world; the plugin itself
  writes it through \<^verbatim>\<open>writeRegistry\<close> only, and a conversion that is told to put its
  output there replaces it (\<open>process_writes\<close> below).
\<close>

datatype registry_file = Absent | Malformed string | Json DocRegistry

text \<open>\<^verbatim>\<open>ctx.worktree || ctx.directory || process.cwd()\<close>\<close>

definition project_base :: "string \<Rightarrow> ctx \<Rightarrow> string" where
  "project_base cwd c =
     (if truthy (worktree c) then or_empty (worktree c)
      else if directory c \<noteq> [] then directory c
      else cwd)"

definition getDocsBasePath :: "string \<Rightarrow> ctx \<Rightarrow> error + string" where
  "getDocsBasePath cwd c =
     (let base = project_base cwd c in
      if base = [] \<or> base = ''/''
      then Inl (Error ''Cannot determine project directory. Please run from a project directory.'')
      else Inr (join (join base ''.opencode'') ''docs''))"

definition getRegistryPath :: "string \<Rightarrow> ctx \<Rightarrow> error + string" where
  "getRegistryPath cwd c =
     (let base = project_base cwd c in
      if base = [] \<or> base = ''/''
      then Inl (Error ''Cannot determine project directory. Please run from a project directory.'')
      else Inr (join (join base ''.opencode'') ''docs-registry.json''))"

section \<open>Presets\<close>

text \<open>A pandoc variable is a \<^verbatim>\<open>string | number | boolean\<close>; \<open>show_value\<close> is its
  rendering inside a template literal (numbers are integers here).\<close>

datatype pvalue = VStr string | VNum int | VBool bool

definition show_value :: "pvalue \<Rightarrow> string" where
  "show_value v =
     (case v of VStr s \<Rightarrow> s | VNum i \<Rightarrow> show_int i
      | VBool b \<Rightarrow> (if b then ''true'' else ''false''))"

datatype pdf_engine = Xelatex | Pdflatex | Lualatex

definition show_engine :: "pdf_engine \<Rightarrow> string" where
  "show_engine e = (case e of Xelatex \<Rightarrow> ''xelatex'' | Pdflatex \<Rightarrow> ''pdflatex''
     | Lualatex \<Rightarrow> ''lualatex'')"

datatype source_type = Project | User | Builtin

record template_cfg =
  path :: string
  document_class :: "string option"
  class_options :: "string list option"

record citation_cfg =
  style_name :: "string option"
  csl_file :: "string option"

record pandoc_cfg =
  from_format :: "string option"
  variables :: "(string \<times> pvalue) list option"
  extra_args :: "string list option"

record style_cfg =
  titlepage :: "bool option"
  titlepage_color :: "string option"
  text_color :: "string option"
  toc :: "bool option"
  toc_own_page :: "bool option"
  number_sections :: "bool option"
  colorlinks :: "bool option"
  linkcolor :: "string option"

text \<open>
  \<^verbatim>\<open>PresetConfig\<close>. The interface declares \<^verbatim>\<open>name\<close> as a string; an object that
  \<^verbatim>\<open>parseYaml\<close> or \<^verbatim>\<open>structuredClone\<close> returns need not have one, so the field is
  optional here like the others.
\<close>

record PresetConfig =
  name :: "string option"
  description :: "string option"
  extends :: "string option"
  template :: "template_cfg option"
  engine :: "pdf_engine option"
  citation :: "citation_cfg option"
  pandoc :: "pandoc_cfg option"
  logos :: "(string \<times> string) list option"
  style :: "style_cfg option"
  required_fields :: "string list option"
  optional_fields :: "string list option"

text \<open>
  \<^verbatim>\<open>ResolvedPreset\<close>. At run time the object that \<^verbatim>\<open>mergePresets\<close> builds from a
  resolved parent carries the parent's provenance and resolved paths along (the spread
  \<^verbatim>\<open>...parent\<close> copies every own property), so the merged preset has this type too.
\<close>

record ResolvedPreset = PresetConfig +
  source_path :: string
  source_type :: source_type
  resolved_template_path :: "string option"
  resolved_csl_path :: "string option"
  resolved_logo_path :: "string option"

text \<open>\<^verbatim>\<open>{...a, ...b}\<close> on objects with ordered keys: the keys of \<open>a\<close> keep their
  place and take the value \<open>b\<close> gives them, the new keys of \<open>b\<close> follow.\<close>

definition spread :: "(string \<times> 'v) list \<Rightarrow> (string \<times> 'v) list \<Rightarrow> (string \<times> 'v) list" where
  "spread a b = fold (\<lambda>kv acc. AList.update (fst kv) (snd kv) acc) b a"

text \<open>\<^verbatim>\<open>...obj\<close> of an object that may be undefined.\<close>

definition entries :: "(string \<times> 'v) list option \<Rightarrow> (string \<times> 'v) list" where
  "entries obj = (case obj of None \<Rightarrow> [] | Some kvs \<Rightarrow> kvs)"

text \<open>A field of \<^verbatim>\<open>{...parent, ...child}\<close>: the child's when the child has it.\<close>

definition or_else :: "'a option \<Rightarrow> 'a option \<Rightarrow> 'a option" where
  "or_else c p = (case c of None \<Rightarrow> p | Some v \<Rightarrow> Some v)"

definition merge_template :: "template_cfg option \<Rightarrow> template_cfg \<Rightarrow> template_cfg" where
  "merge_template p c =
     (case p of None \<Rightarrow> c
      | Some pt \<Rightarrow>
          \<lparr>path = path c,
           document_class = or_else (document_class c) (document_class pt),
           class_options = or_else (class_options c) (class_options pt)\<rparr>)"

definition merge_citation :: "citation_cfg option \<Rightarrow> citation_cfg \<Rightarrow> citation_cfg" where
  "merge_citation p c =
     (case p of None \<Rightarrow> c
      | Some pc \<Rightarrow>
          \<lparr>style_name = or_else (style_name c) (style_name pc),
           csl_file = or_else (csl_file c) (csl_file pc)\<rparr>)"

definition merge_pandoc :: "pandoc_cfg option \<Rightarrow> pandoc_cfg \<Rightarrow> pandoc_cfg" where
  "merge_pandoc p c =
     \<lparr>from_format = or_else (from_format c) (case p of None \<Rightarrow> None | Some pp \<Rightarrow> from_format pp),
      variables =
        Some (spread (entries (case p of None \<Rightarrow> None | Some pp \<Rightarrow> variables pp))
                (entries (variables c))),
      extra_args =
        Some ((case (case p of None \<Rightarrow> None | Some pp \<Rightarrow> extra_args pp) of
                 None \<Rightarrow> [] | Some xs \<Rightarrow> xs)
              @ (case extra_args c of None \<Rightarrow> [] | Some xs \<Rightarrow> xs))\<rparr>"

definition merge_style :: "style_cfg option \<Rightarrow> style_cfg \<Rightarrow> style_cfg" where
  "merge_style p c =
     (case p of None \<Rightarrow> c
      | Some ps \<Rightarrow>
          \<lparr>titlepage = or_else (titlepage c) (titlepage ps),
           titlepage_color = or_else (titlepage_color c) (titlepage_color ps),
           text_color = or_else (text_color c) (text_color ps),
           toc = or_else (toc c) (toc ps),
           toc_own_page = or_else (toc_own_page c) (toc_own_page ps),
           number_sections = or_else (number_sections c) (number_sections ps),
           colorlinks = or_else (colorlinks c) (colorlinks ps),
           linkcolor = or_else (linkcolor c) (linkcolor ps)\<rparr>)"

text \<open>\<^verbatim>\<open>mergePresets(parent, child)\<close>, with the parent a resolved preset as in
  \<^verbatim>\<open>loadPreset\<close>.\<close>

definition mergePresets :: "ResolvedPreset \<Rightarrow> PresetConfig \<Rightarrow> ResolvedPreset" where
  "mergePresets parent child =
     \<lparr>name = or_else (name child) (name parent),
      description = or_else (description child) (description parent),
      extends = or_else (extends child) (extends parent),
      template =
        (case template child of
           Some ct \<Rightarrow> Some (merge_template (template parent) ct)
         | None \<Rightarrow> template parent),
      engine = or_else (engine child) (engine parent),
      citation =
        (case citation child of
           Some cc \<Rightarrow> Some (merge_citation (citation parent) cc)
         | None \<Rightarrow> citation parent),
      pandoc =
        (case pandoc child of
           Some cp \<Rightarrow> Some (merge_pandoc (pandoc parent) cp)
         | None \<Rightarrow> pandoc parent),
      logos =
        (case logos child of
           Some cl \<Rightarrow> Some (spread (entries (logos parent)) cl)
         | None \<Rightarrow> logos parent),
      style =
        (case style child of
           Some cs \<Rightarrow> Some (merge_style (style parent) cs)
         | None \<Rightarrow> style parent),
      required_fields = or_else (required_fields child) (required_fields parent),
      optional_fields = or_else (optional_fields child) (optional_fields parent),
      source_path = source_path parent,
      source_type = source_type parent,
      resolved_template_path = resolved_template_path parent,
      resolved_csl_path = resolved_csl_path parent,
      resolved_logo_path = resolved_logo_path parent\<rparr>"

definition no_template :: template_cfg where
  "no_template = \<lparr>path = [], document_class = None, class_options = None\<rparr>"

definition no_pandoc :: pandoc_cfg where
  "no_pandoc = \<lparr>from_format = None, variables = None, extra_args = None\<rparr>"

definition no_style :: style_cfg where
  "no_style =
     \<lparr>titlepage = None, titlepage_color = None, text_color = None, toc = None,
      toc_own_page = None, number_sections = None, colorlinks = None, linkcolor = None\<rparr>"

definition no_preset :: PresetConfig where
  "no_preset =
     \<lparr>name = None, description = None, extends = None, template = None, engine = None,
      citation = None, pandoc = None, logos = None, style = None, required_fields = None,
      optional_fields = None\<rparr>"

definition BUILTIN_PRESETS :: "(string \<times> PresetConfig) list" where
  "BUILTIN_PRESETS =
    [(''school-report'',
      no_preset
       \<lparr>name := Some ''school-report'',
        description := Some ''SIT/UofG School Report with optional logos and adjustable margins'',
        template := Some (no_template\<lparr>path := ''sit-uofg/template.latex''\<rparr>),
        engine := Some Xelatex,
        logos := Some [(''sit'', ''assets/sit-logo.png''), (''uofg'', ''assets/uofg-logo.png''),
                       (''both'', ''both'')],
        style := Some (no_style
          \<lparr>titlepage := Some True, toc := Some True, toc_own_page := Some True,
           colorlinks := Some True, linkcolor := Some ''blue'', number_sections := Some True\<rparr>),
        pandoc := Some (no_pandoc
          \<lparr>from_format := Some ''markdown+smart+pipe_tables'',
           variables := Some [(''top-margin'', VStr ''2.5cm''), (''bottom-margin'', VStr ''2.5cm''),
                              (''left-margin'', VStr ''2.5cm''), (''right-margin'', VStr ''2.5cm'')]\<rparr>),
        required_fields := Some [''title''],
        optional_fields := Some [''author'', ''date'', ''course'', ''group'', ''project-title'',
                                 ''authors'']\<rparr>),
     (''ieee-conference'',
      no_preset
       \<lparr>name := Some ''ieee-conference'',
        description := Some ''IEEE Conference Paper (two-column, US Letter)'',
        template := Some \<lparr>path = ''ieee/template.latex'', document_class = Some ''IEEEtran'',
                           class_options = Some [''conference'', ''10pt'', ''letterpaper'']\<rparr>,
        engine := Some Pdflatex,
        citation := Some \<lparr>style_name = Some ''ieee'', csl_file = Some ''ieee.csl''\<rparr>,
        pandoc := Some (no_pandoc
          \<lparr>from_format := Some ''markdown+citations+smart'',
           variables := Some [(''colorlinks'', VBool True), (''linkcolor'', VStr ''black'')]\<rparr>),
        required_fields := Some [''title'', ''author'', ''abstract'', ''keywords'']\<rparr>),
     (''ieee-journal'',
      no_preset
       \<lparr>name := Some ''ieee-journal'',
        description := Some ''IEEE Journal Paper (two-column)'',
        extends := Some ''ieee-conference'',
        template := Some \<lparr>path = ''ieee/template.latex'', document_class = Some ''IEEEtran'',
                           class_options = Some [''journal'', ''10pt'', ''letterpaper'']\<rparr>\<rparr>),
     (''acm-sigconf'',
      no_preset
       \<lparr>name := Some ''acm-sigconf'',
        description := Some ''ACM SIGCONF Paper'',
        template := Some \<lparr>path = ''acm/template.latex'', document_class = Some ''acmart'',
                           class_options = Some [''sigconf'']\<rparr>,
        engine := Some Pdflatex,
        citation := Some \<lparr>style_name = Some ''acm'', csl_file = Some ''acm-sig-proceedings.csl''\<rparr>,
        pandoc := Some (no_pandoc\<lparr>from_format := Some ''markdown+citations+smart''\<rparr>),
        required_fields := Some [''title'', ''author'', ''abstract'', ''keywords'']\<rparr>),
     (''lncs'',
      no_preset
       \<lparr>name := Some ''lncs'',
        description := Some ''Springer LNCS Paper'',
        template := Some \<lparr>path = ''lncs/template.latex'', document_class = Some ''llncs'',
                           class_options = None\<rparr>,
        engine := Some Pdflatex,
        citation := Some \<lparr>style_name = Some ''springer-lncs'', csl_file = Some ''springer-lncs.csl''\<rparr>,
        pandoc := Some (no_pandoc\<lparr>from_format := Some ''markdown+citations+smart''\<rparr>),
        required_fields := Some [''title'', ''author'', ''abstract'']\<rparr>),
     (''eisvogel'',
      no_preset
       \<lparr>name := Some ''eisvogel'',
        description := Some ''General purpose professional document (Eisvogel template)'',
        template := Some (no_template\<lparr>path := ''eisvogel.latex''\<rparr>),
        engine := Some Xelatex,
        pandoc := Some (no_pandoc\<lparr>from_format := Some ''markdown+smart''\<rparr>),
        style := Some (no_style\<lparr>colorlinks := Some True, linkcolor := Some ''blue''\<rparr>),
        required_fields := Some [''title''],
        optional_fields := Some [''author'', ''date'', ''subtitle'']\<rparr>)]"

text \<open>
  Modelled from the spec: the \<^verbatim>\<open>TemplateResolver\<close> class, which the plugin and the
  preset manager import and whose source is missing. The spec describes it as a
  filesystem scope search, project first, then user, then built-in; each kind of asset
  is three tables from a name to the path of the file found in that scope.
\<close>

record scopes =
  in_project :: "string \<rightharpoonup> string"
  in_user :: "string \<rightharpoonup> string"
  in_builtin :: "string \<rightharpoonup> string"

definition scope_search :: "scopes \<Rightarrow> string \<Rightarrow> (string \<times> source_type) option" where
  "scope_search sc n =
     (case in_project sc n of
        Some p \<Rightarrow> Some (p, Project)
      | None \<Rightarrow>
          (case in_user sc n of
             Some p \<Rightarrow> Some (p, User)
           | None \<Rightarrow>
               (case in_builtin sc n of
                  Some p \<Rightarrow> Some (p, Builtin)
                | None \<Rightarrow> None)))"

text \<open>
  The resolver as the preset manager and the tools see it. \<open>preset_file\<close> stands for
  \<^verbatim>\<open>parseYaml(readFileSync(path))\<close>, which can throw; \<open>fs_preset_names\<close> for the
  names \<^verbatim>\<open>resolver.listPresets()\<close> reports. \<open>asset_of_inherited\<close> is what
  \<^verbatim>\<open>resolveAsset\<close> answers (or throws) when it is handed, in place of a file name, the
  value that a logo set inherits under the given key.
\<close>

record TemplateResolver =
  preset_scopes :: scopes
  template_scopes :: scopes
  csl_scopes :: scopes
  asset_scopes :: scopes
  asset_of_inherited :: "string \<Rightarrow> error + (string \<times> source_type) option"
  preset_file :: "string \<Rightarrow> error + PresetConfig"
  fs_preset_names :: "string list"
  userConfigDir :: string

definition resolvePreset :: "TemplateResolver \<Rightarrow> string \<Rightarrow> (string \<times> source_type) option" where
  "resolvePreset R n = scope_search (preset_scopes R) n"

definition resolveTemplate :: "TemplateResolver \<Rightarrow> string \<Rightarrow> (string \<times> source_type) option" where
  "resolveTemplate R n = scope_search (template_scopes R) n"

definition resolveCsl :: "TemplateResolver \<Rightarrow> string \<Rightarrow> (string \<times> source_type) option" where
  "resolveCsl R n = scope_search (csl_scopes R) n"

definition resolveAsset :: "TemplateResolver \<Rightarrow> string \<Rightarrow> (string \<times> source_type) option" where
  "resolveAsset R n = scope_search (asset_scopes R) n"

text \<open>\<^verbatim>\<open>listPresetNames()\<close>: the built-in names and the names found on disk, without
  repetition, sorted.\<close>

definition listPresetNames :: "TemplateResolver \<Rightarrow> string list" where
  "listPresetNames R = sort (remdups (map fst BUILTIN_PRESETS @ fs_preset_names R))"

text \<open>
  A property read \<^verbatim>\<open>obj[key]\<close> on an object literal, a parsed or a cloned object. The
  key is looked up among the object's own properties first and then on
  \<^verbatim>\<open>Object.prototype\<close>, which holds eleven methods and, under \<^verbatim>\<open>__proto__\<close>, an
  accessor that returns the prototype object itself. All of these inherited values are
  truthy.
\<close>

datatype 'a property = Own 'a | Method | Prototype | Undefined

definition object_methods :: "string list" where
  "object_methods =
     [''constructor'', ''hasOwnProperty'', ''isPrototypeOf'', ''propertyIsEnumerable'',
      ''toLocaleString'', ''toString'', ''valueOf'', ''__defineGetter__'', ''__defineSetter__'',
      ''__lookupGetter__'', ''__lookupSetter__'']"

definition get_property :: "(string \<times> 'a) list \<Rightarrow> string \<Rightarrow> 'a property" where
  "get_property obj key =
     (case map_of obj key of
        Some v \<Rightarrow> Own v
      | None \<Rightarrow>
          if key \<in> set object_methods then Method
          else if key = ''__proto__'' then Prototype
          else Undefined)"

text \<open>
  The first part of \<^verbatim>\<open>loadPreset\<close>: where the definition comes from. The test
  \<^verbatim>\<open>BUILTIN_PRESETS[presetName]\<close> comes first, and the resolver is asked only when it
  is falsy. A name of the table gives a copy of its entry. An inherited method is truthy
  too, and \<^verbatim>\<open>structuredClone\<close> throws on a function; the prototype object is cloned
  as an object without properties, which then counts as a built-in preset.
\<close>

definition locatePreset ::
  "TemplateResolver \<Rightarrow> string \<Rightarrow> error + (PresetConfig \<times> string \<times> source_type)" where
  "locatePreset R presetName =
     (case get_property BUILTIN_PRESETS presetName of
        Own b \<Rightarrow> Inr (b, ''builtin'', Builtin)
      | Method \<Rightarrow> Inl DataCloneError
      | Prototype \<Rightarrow> Inr (no_preset, ''builtin'', Builtin)
      | Undefined \<Rightarrow>
          (case resolvePreset R presetName of
             None \<Rightarrow>
               Inl (Error (''Preset '' @ [squote] @ presetName @ [squote]
                     @ '' not found. Available presets: ''
                     @ join_with '', '' (listPresetNames R)))
           | Some found \<Rightarrow>
               (case preset_file R (fst found) of
                  Inl e \<Rightarrow> Inl e
                | Inr cfg \<Rightarrow> Inr (cfg, fst found, snd found))))"

text \<open>A parsed preset as an object without provenance and resolved paths.\<close>

definition unresolved :: "PresetConfig \<Rightarrow> ResolvedPreset" where
  "unresolved p =
     PresetConfig.extend p
       \<lparr>source_path = [], source_type = Builtin, resolved_template_path = None,
        resolved_csl_path = None, resolved_logo_path = None\<rparr>"

text \<open>The last part of \<^verbatim>\<open>loadPreset\<close>: provenance, then the template, CSL and logo
  paths. A path that does not resolve leaves the field as the spread left it.\<close>

definition resolve_template :: "TemplateResolver \<Rightarrow> ResolvedPreset \<Rightarrow> ResolvedPreset" where
  "resolve_template R p =
     (case template p of
        None \<Rightarrow> p
      | Some t \<Rightarrow>
          if path t = [] then p
          else (case resolveTemplate R (path t) of
                  None \<Rightarrow> p
                | Some found \<Rightarrow> p\<lparr>resolved_template_path := Some (fst found)\<rparr>))"

definition resolve_csl :: "TemplateResolver \<Rightarrow> ResolvedPreset \<Rightarrow> ResolvedPreset" where
  "resolve_csl R p =
     (case citation p of
        None \<Rightarrow> p
      | Some c \<Rightarrow>
          if \<not> truthy (csl_file c) then p
          else (case resolveCsl R (or_empty (csl_file c)) of
                  None \<Rightarrow> p
                | Some found \<Rightarrow> p\<lparr>resolved_csl_path := Some (fst found)\<rparr>))"

text \<open>
  The logo: \<^verbatim>\<open>preset.logos[logoOption]\<close> is a property read as well. An own entry that
  is not empty goes to \<^verbatim>\<open>resolveAsset\<close> as a file name; an inherited value is truthy
  and goes there too.
\<close>

definition with_logo ::
  "ResolvedPreset \<Rightarrow> error + (string \<times> source_type) option \<Rightarrow> error + ResolvedPreset" where
  "with_logo p assetResolved =
     (case assetResolved of
        Inl err \<Rightarrow> Inl err
      | Inr None \<Rightarrow> Inr p
      | Inr (Some found) \<Rightarrow> Inr (p\<lparr>resolved_logo_path := Some (fst found)\<rparr>))"

definition logo_not_found :: "string \<Rightarrow> (string \<times> string) list \<Rightarrow> error" where
  "logo_not_found logoOption ls =
     Error (''Logo option '' @ [squote] @ logoOption @ [squote]
            @ '' not found. Available options: '' @ join_with '', '' (map fst ls))"

definition resolve_logo ::
  "TemplateResolver \<Rightarrow> string option \<Rightarrow> ResolvedPreset \<Rightarrow> error + ResolvedPreset" where
  "resolve_logo R logoOption p =
     (if \<not> truthy logoOption then Inr p
      else (case logos p of
              None \<Rightarrow> Inr p
            | Some ls \<Rightarrow>
                (case get_property ls (or_empty logoOption) of
                   Undefined \<Rightarrow> Inl (logo_not_found (or_empty logoOption) ls)
                 | Own logoPath \<Rightarrow>
                     if logoPath = [] then Inl (logo_not_found (or_empty logoOption) ls)
                     else with_logo p (Inr (resolveAsset R logoPath))
                 | Method \<Rightarrow> with_logo p (asset_of_inherited R (or_empty logoOption))
                 | Prototype \<Rightarrow> with_logo p (asset_of_inherited R (or_empty logoOption)))))"

definition resolve_paths ::
  "TemplateResolver \<Rightarrow> string \<Rightarrow> source_type \<Rightarrow> string option \<Rightarrow> ResolvedPreset
     \<Rightarrow> error + ResolvedPreset" where
  "resolve_paths R sourcePath sourceType logoOption p =
     resolve_logo R logoOption
       (resolve_csl R (resolve_template R (p\<lparr>source_path := sourcePath, source_type := sourceType\<rparr>)))"

type_synonym preset_cache = "string \<rightharpoonup> ResolvedPreset"

text \<open>
  \<^verbatim>\<open>PresetManager.loadPreset\<close>, with the cache passed in and out. The recursion
  follows \<^verbatim>\<open>extends\<close> and is not bounded by the code; the call stack is, and the first
  argument is what is left of it: a chain of parents longer than that (a cycle, for one)
  ends in the runtime's stack-overflow error.
\<close>

fun loadPreset ::
  "nat \<Rightarrow> TemplateResolver \<Rightarrow> preset_cache \<Rightarrow> string \<Rightarrow> string option
     \<Rightarrow> (error + ResolvedPreset) \<times> preset_cache" where
  "loadPreset 0 R cache presetName logoOption =
     (Inl (Error ''Maximum call stack size exceeded''), cache)"
| "loadPreset (Suc depth) R cache presetName logoOption =
     (let cacheKey = presetName @ '':'' @ or_empty logoOption in
      case cache cacheKey of
        Some hit \<Rightarrow> (Inr hit, cache)
      | None \<Rightarrow>
          (case locatePreset R presetName of
             Inl e \<Rightarrow> (Inl e, cache)
           | Inr (child, sourcePath, sourceType) \<Rightarrow>
               (case (if truthy (extends child)
                      then (case loadPreset depth R cache (or_empty (extends child)) None of
                              (Inl e, cache1) \<Rightarrow> (Inl e, cache1)
                            | (Inr parentPreset, cache1) \<Rightarrow>
                                (Inr (mergePresets parentPreset child), cache1))
                      else (Inr (unresolved child), cache)) of
                  (Inl e, cache1) \<Rightarrow> (Inl e, cache1)
                | (Inr merged, cache1) \<Rightarrow>
                    (case resolve_paths R sourcePath sourceType logoOption merged of
                       Inl e \<Rightarrow> (Inl e, cache1)
                     | Inr resolvedPreset \<Rightarrow>
                         (Inr resolvedPreset, cache1(cacheKey \<mapsto> resolvedPreset))))))"

text \<open>\<^verbatim>\<open>clearCache()\<close>\<close>

definition clearCache :: "preset_cache \<Rightarrow> preset_cache" where
  "clearCache cache = Map.empty"

section \<open>The pandoc command builder\<close>

text \<open>
  The class \<^verbatim>\<open>PandocBuilder\<close> of \<^verbatim>\<open>pandoc-builder\<close>: the arguments pushed so far,
  and the input and output file that \<^verbatim>\<open>build()\<close> puts last. Each chained method is a
  function on the builder. The packaged plugin imports its builder from a module of its
  own; the calls it makes beyond this class are a working directory for
  \<^verbatim>\<open>execute\<close> and the method \<^verbatim>\<open>simpleTables()\<close>.
\<close>

record PandocBuilder =
  args :: "string list"
  inputFile :: string
  outputFile :: string

text \<open>\<^verbatim>\<open>pandoc()\<close>\<close>

definition new_builder :: PandocBuilder where
  "new_builder = \<lparr>args = [''pandoc''], inputFile = [], outputFile = []\<rparr>"

definition push_args :: "string list \<Rightarrow> PandocBuilder \<Rightarrow> PandocBuilder" where
  "push_args xs b = b\<lparr>args := args b @ xs\<rparr>"

definition set_input :: "string \<Rightarrow> PandocBuilder \<Rightarrow> PandocBuilder" where
  "set_input p b = b\<lparr>inputFile := p\<rparr>"

definition set_output :: "string \<Rightarrow> PandocBuilder \<Rightarrow> PandocBuilder" where
  "set_output p b = b\<lparr>outputFile := p\<rparr>"

definition b_from :: "string \<Rightarrow> PandocBuilder \<Rightarrow> PandocBuilder" where
  "b_from fmt = push_args [''-f'', fmt]"

definition b_template :: "string \<Rightarrow> PandocBuilder \<Rightarrow> PandocBuilder" where
  "b_template p = push_args [''--template='' @ p]"

definition b_pdfEngine :: "pdf_engine \<Rightarrow> PandocBuilder \<Rightarrow> PandocBuilder" where
  "b_pdfEngine e = push_args [''--pdf-engine='' @ show_engine e]"

definition b_variable :: "string \<Rightarrow> pvalue \<Rightarrow> PandocBuilder \<Rightarrow> PandocBuilder" where
  "b_variable n v = push_args [''-V'', n @ ''='' @ show_value v]"

definition b_variables :: "(string \<times> pvalue) list \<Rightarrow> PandocBuilder \<Rightarrow> PandocBuilder" where
  "b_variables vars b = fold (\<lambda>kv. b_variable (fst kv) (snd kv)) vars b"

definition b_bibliography :: "string \<Rightarrow> PandocBuilder \<Rightarrow> PandocBuilder" where
  "b_bibliography p = push_args [''--bibliography='' @ p, ''--citeproc'']"

definition b_csl :: "string \<Rightarrow> PandocBuilder \<Rightarrow> PandocBuilder" where
  "b_csl p = push_args [''--csl='' @ p]"

definition b_toc :: "PandocBuilder \<Rightarrow> PandocBuilder" where
  "b_toc = push_args [''--toc'']"

definition b_numberSections :: "PandocBuilder \<Rightarrow> PandocBuilder" where
  "b_numberSections = push_args [''--number-sections'']"

definition b_listings :: "PandocBuilder \<Rightarrow> PandocBuilder" where
  "b_listings = push_args [''--listings'']"

definition b_metadataFile :: "string \<Rightarrow> PandocBuilder \<Rightarrow> PandocBuilder" where
  "b_metadataFile p = push_args [''--metadata-file='' @ p]"

definition b_rawArgs :: "string list \<Rightarrow> PandocBuilder \<Rightarrow> PandocBuilder" where
  "b_rawArgs xs = push_args xs"

definition b_resourcePath :: "string \<Rightarrow> PandocBuilder \<Rightarrow> PandocBuilder" where
  "b_resourcePath p = push_args [''--resource-path='' @ p]"

text \<open>\<^verbatim>\<open>if (cond) this.method(...)\<close>\<close>

definition on_cond :: "bool \<Rightarrow> ('a \<Rightarrow> 'a) \<Rightarrow> 'a \<Rightarrow> 'a" where
  "on_cond c f x = (if c then f x else x)"

definition apply_style :: "style_cfg \<Rightarrow> PandocBuilder \<Rightarrow> PandocBuilder" where
  "apply_style st b =
     (let b1 = (case titlepage st of None \<Rightarrow> b | Some v \<Rightarrow> b_variable ''titlepage'' (VBool v) b);
          b2 = on_cond (truthy (titlepage_color st))
                 (b_variable ''titlepage-color'' (VStr (or_empty (titlepage_color st)))) b1;
          b3 = on_cond (truthy (text_color st))
                 (\<lambda>x. b_variable ''titlepage-rule-color'' (VStr (or_empty (text_color st)))
                        (b_variable ''titlepage-text-color'' (VStr (or_empty (text_color st))) x)) b2;
          b4 = on_cond (toc st = Some True) b_toc b3;
          b5 = on_cond (toc_own_page st = Some True) (b_variable ''toc-own-page'' (VBool True)) b4;
          b6 = on_cond (number_sections st = Some True) b_numberSections b5;
          b7 = (case colorlinks st of None \<Rightarrow> b6 | Some v \<Rightarrow> b_variable ''colorlinks'' (VBool v) b6)
      in on_cond (truthy (linkcolor st)) (b_variable ''linkcolor'' (VStr (or_empty (linkcolor st)))) b7)"

text \<open>\<^verbatim>\<open>applyPreset(preset)\<close>\<close>

definition applyPreset :: "ResolvedPreset \<Rightarrow> PandocBuilder \<Rightarrow> PandocBuilder" where
  "applyPreset p b =
     (let pd = (case pandoc p of None \<Rightarrow> no_pandoc | Some x \<Rightarrow> x);
          b1 = on_cond (truthy (from_format pd)) (b_from (or_empty (from_format pd))) b;
          b2 = on_cond (truthy (resolved_template_path p))
                 (\<lambda>x. let tp = or_empty (resolved_template_path p);
                           x1 = b_template tp x
                       in on_cond (parent_dir tp \<noteq> []) (b_resourcePath (parent_dir tp)) x1) b1;
          b3 = (case engine p of None \<Rightarrow> b2 | Some e \<Rightarrow> b_pdfEngine e b2);
          b4 = on_cond (truthy (resolved_csl_path p)) (b_csl (or_empty (resolved_csl_path p))) b3;
          b5 = (case style p of None \<Rightarrow> b4 | Some st \<Rightarrow> apply_style st b4);
          b6 = (case variables pd of None \<Rightarrow> b5 | Some vs \<Rightarrow> b_variables vs b5);
          b7 = (case extra_args pd of None \<Rightarrow> b6 | Some xs \<Rightarrow> b_rawArgs xs b6)
      in on_cond (truthy (resolved_logo_path p))
           (\<lambda>x. b_variable ''logo-width'' (VStr ''150'')
                  (b_variable ''logo'' (VStr (or_empty (resolved_logo_path p))) x)) b7)"

record doc_metadata =
  md_title :: "string option"
  md_author :: "string option"
  md_date :: "string option"
  md_subtitle :: "string option"
  md_abstract :: "string option"
  md_keywords :: "string option"

definition opt_variable :: "string \<Rightarrow> string option \<Rightarrow> PandocBuilder \<Rightarrow> PandocBuilder" where
  "opt_variable n v = on_cond (truthy v) (b_variable n (VStr (or_empty v)))"

text \<open>\<^verbatim>\<open>applyMetadata(metadata)\<close>, for the fields the tools pass (keywords as one string).\<close>

definition applyMetadata :: "doc_metadata \<Rightarrow> PandocBuilder \<Rightarrow> PandocBuilder" where
  "applyMetadata m b =
     opt_variable ''keywords'' (md_keywords m)
       (opt_variable ''abstract'' (md_abstract m)
         (opt_variable ''subtitle'' (md_subtitle m)
           (opt_variable ''date'' (md_date m)
             (opt_variable ''author'' (md_author m)
               (opt_variable ''title'' (md_title m) b)))))"

text \<open>\<^verbatim>\<open>build()\<close>\<close>

definition build :: "PandocBuilder \<Rightarrow> string list" where
  "build b =
     args b @ (if inputFile b \<noteq> [] then [inputFile b] else [])
       @ (if outputFile b \<noteq> [] then [''-o'', outputFile b] else [])"

text \<open>What a finished child process leaves: exit code and the two captured streams.\<close>

record proc_result =
  exitCode :: int
  proc_stdout :: string
  proc_stderr :: string

datatype exec_result = Success string | Failure string

text \<open>
  The part of \<^verbatim>\<open>execute()\<close> after the process has exited:
  \<^verbatim>\<open>{success: false, error: stderr || stdout.split("\n").slice(-30).join("\n")}\<close>
  on a non-zero exit code, \<^verbatim>\<open>{success: true, output: stdout}\<close> otherwise.
\<close>

definition exec_outcome :: "proc_result \<Rightarrow> exec_result" where
  "exec_outcome p =
     (if exitCode p \<noteq> 0
      then Failure (if proc_stderr p \<noteq> [] then proc_stderr p
                    else join_with [newline] (slice_last 30 (split_chr newline (proc_stdout p))))
      else Success (proc_stdout p))"

text \<open>\<^verbatim>\<open>computeOutputPath(inputPath, outputDir, outputFormat)\<close>. The file name is the
  last segment without its extension (\<^verbatim>\<open>/\.[^/.]+$/\<close>), or \<^verbatim>\<open>output\<close> when that is empty.\<close>

definition strip_extension :: "string \<Rightarrow> string" where
  "strip_extension f =
     (let ext = rev (takeWhile (\<lambda>c. c \<noteq> CHR ''.'' \<and> c \<noteq> CHR ''/'') (rev f)) in
      if ext \<noteq> [] \<and> length ext < length f \<and> f ! (length f - length ext - 1) = CHR ''.''
      then take (length f - length ext - 1) f
      else f)"

definition computeOutputPath :: "string \<Rightarrow> string option \<Rightarrow> string \<Rightarrow> string" where
  "computeOutputPath inputPath outputDir outputFormat =
     (let inputDir = parent_dir inputPath;
          base = strip_extension (last (split_chr (CHR ''/'') inputPath));
          fileName = (if base = [] then ''output'' else base);
          targetDir = (if truthy outputDir then or_empty outputDir else inputDir)
      in targetDir @ ''/'' @ fileName @ ''.'' @ outputFormat)"

section \<open>The world the tools act on\<close>

text \<open>
  The mutable state: the registry file, the other files and the directories of the file
  system, the preset cache of the plugin's \<^verbatim>\<open>PresetManager\<close>, and the log of the
  child processes started so far (each with its command line).
\<close>

record world =
  registry_file :: registry_file
  files :: "string \<rightharpoonup> string"
  dirs :: "string set"
  cache :: preset_cache
  spawned :: "string list list"

record fetch_result =
  fetch_ok :: bool
  fetch_status :: nat
  fetch_text :: string

record author =
  author_name :: string
  sit_id :: "string option"
  glasgow_id :: "string option"

text \<open>
  What a tool call reads from outside and cannot change: the plugin context, the clock
  (the successive readings of \<^verbatim>\<open>new Date().toISOString()\<close>, and \<^verbatim>\<open>Date.now()\<close>, a
  count of milliseconds since 1970), the random tape, the depth of the call stack, the
  resolver, what each child process and each download will answer, and the library
  functions \<^verbatim>\<open>JSON.parse\<close> (on the authors argument; \<open>Inl\<close> is the text of the error
  it throws) and \<^verbatim>\<open>JSON.stringify\<close> (on a draft's metadata). \<open>simple_tables\<close> is the
  builder method \<^verbatim>\<open>simpleTables()\<close>, which the builder modelled here does not have.
  \<open>output_text\<close> is the text that a conversion which ends with exit code 0 has put
  into its output file, by command line and working directory; \<open>parse_registry\<close> is
  \<^verbatim>\<open>JSON.parse\<close> on such a text when \<^verbatim>\<open>readRegistry\<close> finds it at the registry path,
  \<open>None\<close> when it throws.
\<close>

record env =
  plugin_ctx :: ctx
  cwd :: string
  clock :: "nat \<Rightarrow> string"
  now_ms :: nat
  random :: "nat \<Rightarrow> draws"
  stack_depth :: nat
  resolver :: TemplateResolver
  spawn_result :: "string list \<Rightarrow> string option \<Rightarrow> proc_result"
  fetch :: "string \<Rightarrow> fetch_result"
  parse_authors :: "string \<Rightarrow> string + author list"
  stringify_meta :: "draft_info \<Rightarrow> string"
  simple_tables :: "PandocBuilder \<Rightarrow> PandocBuilder"
  output_text :: "string list \<Rightarrow> string option \<Rightarrow> string"
  parse_registry :: "string \<Rightarrow> DocRegistry option"

definition existsSync :: "world \<Rightarrow> string \<Rightarrow> bool" where
  "existsSync w p = (files w p \<noteq> None \<or> p \<in> dirs w)"

text \<open>\<^verbatim>\<open>if (!existsSync(dir)) mkdirSync(dir, {recursive: true})\<close>\<close>

definition ensure_dir :: "string \<Rightarrow> world \<Rightarrow> world" where
  "ensure_dir d w = (if existsSync w d then w else w\<lparr>dirs := insert d (dirs w)\<rparr>)"

definition mkdirSync :: "string \<Rightarrow> world \<Rightarrow> world" where
  "mkdirSync d w = w\<lparr>dirs := insert d (dirs w)\<rparr>"

definition writeFileSync :: "string \<Rightarrow> string \<Rightarrow> world \<Rightarrow> world" where
  "writeFileSync p content w = w\<lparr>files := (files w)(p \<mapsto> content)\<rparr>"

text \<open>Starting a child process: the command line joins the log.\<close>

definition log_spawn :: "string list \<Rightarrow> world \<Rightarrow> world" where
  "log_spawn cmd w = w\<lparr>spawned := spawned w @ [cmd]\<rparr>"

text \<open>\<^verbatim>\<open>rm -rf dir\<close> and \<^verbatim>\<open>rm -f file\<close>, taken to do what they are for.\<close>

definition rm_rf :: "string \<Rightarrow> world \<Rightarrow> world" where
  "rm_rf d w =
     (log_spawn [''rm'', ''-rf'', d] w)
       \<lparr>files := (\<lambda>p. if p = d \<or> startsWith p (d @ ''/'') then None else files w p),
        dirs := Set.filter (\<lambda>p. \<not> (p = d \<or> startsWith p (d @ ''/''))) (dirs w)\<rparr>"

definition rm_f :: "string \<Rightarrow> world \<Rightarrow> world" where
  "rm_f f w = (log_spawn [''rm'', ''-f'', f] w)\<lparr>files := (files w)(f := None)\<rparr>"

text \<open>\<^verbatim>\<open>readRegistry(ctx)\<close>: the path can fail to be determined; a missing file and a
  file that does not parse both read as the empty registry.\<close>

definition readRegistry :: "env \<Rightarrow> world \<Rightarrow> error + DocRegistry" where
  "readRegistry e w =
     (case getRegistryPath (cwd e) (plugin_ctx e) of
        Inl err \<Rightarrow> Inl err
      | Inr p \<Rightarrow>
          (case registry_file w of
             Absent \<Rightarrow> Inr \<lparr>drafts = []\<rparr>
           | Malformed content \<Rightarrow> Inr \<lparr>drafts = []\<rparr>
           | Json r \<Rightarrow> Inr r))"

text \<open>\<^verbatim>\<open>writeRegistry(ctx, registry)\<close>\<close>

definition writeRegistry :: "env \<Rightarrow> DocRegistry \<Rightarrow> world \<Rightarrow> error + world" where
  "writeRegistry e registry w =
     (case getRegistryPath (cwd e) (plugin_ctx e) of
        Inl err \<Rightarrow> Inl err
      | Inr p \<Rightarrow> Inr ((ensure_dir (parent_dir p) w)\<lparr>registry_file := Json registry\<rparr>))"

text \<open>The \<^verbatim>\<open>do ... while (registry.drafts[id] && attempts < 100)\<close> loop of
  \<^verbatim>\<open>generateUniqueDocId\<close>; it returns the last identifier drawn and the number of
  attempts made.\<close>

function id_loop :: "(string \<times> draft_info) list \<Rightarrow> (nat \<Rightarrow> draws) \<Rightarrow> nat \<Rightarrow> string \<times> nat" where
  "id_loop ds rnd attempts =
     (let docId = generateDocId (rnd attempts) in
      if map_of ds docId \<noteq> None \<and> Suc attempts < 100
      then id_loop ds rnd (Suc attempts)
      else (docId, Suc attempts))"
  by pat_completeness auto
termination
  by (relation "measure (\<lambda>(ds, rnd, attempts). 100 - attempts)") auto

declare id_loop.simps [simp del]

text \<open>\<^verbatim>\<open>generateUniqueDocId(ctx)\<close>, after the registry has been read.\<close>

definition unique_id :: "(string \<times> draft_info) list \<Rightarrow> (nat \<Rightarrow> draws) \<Rightarrow> nat \<Rightarrow> string" where
  "unique_id ds rnd ms =
     (case id_loop ds rnd 0 of
        (docId, attempts) \<Rightarrow>
          if attempts \<ge> 100 then generateDocId (rnd attempts) @ ''-'' @ show_nat ms
          else docId)"

definition generateUniqueDocId :: "env \<Rightarrow> world \<Rightarrow> error + string" where
  "generateUniqueDocId e w =
     (case readRegistry e w of
        Inl err \<Rightarrow> Inl err
      | Inr registry \<Rightarrow> Inr (unique_id (drafts registry) (random e) (now_ms e)))"

section \<open>The draft tools\<close>

record draft_args =
  arg_title :: string
  arg_preset :: string
  initial_content :: "string option"
  arg_source_markdown :: "string option"

text \<open>\<^verbatim>\<open>new Date().toISOString().split("T")[0]\<close>\<close>

definition iso_date :: "string \<Rightarrow> string" where
  "iso_date stamp = hd (split_chr (CHR ''T'') stamp)"

text \<open>The frontmatter block of \<^verbatim>\<open>docs_draft\<close>: five lines joined by newlines, the
  last one empty.\<close>

definition frontmatter :: "string \<Rightarrow> string \<Rightarrow> string" where
  "frontmatter ttl stamp =
     join_with [newline]
       [''---'',
        ''title: '' @ [dquote] @ escapeYaml ttl @ [dquote],
        ''date: '' @ [dquote] @ iso_date stamp @ [dquote],
        ''---'',
        []]"

text \<open>The initial content: \<^verbatim>\<open>initial_content\<close> when given and not empty, else the
  source file when it is named and exists. Reading a directory throws.\<close>

definition initial_text :: "world \<Rightarrow> draft_args \<Rightarrow> error + string" where
  "initial_text w a =
     (if truthy (initial_content a) then Inr (or_empty (initial_content a))
      else if truthy (arg_source_markdown a) \<and> existsSync w (or_empty (arg_source_markdown a))
      then (case files w (or_empty (arg_source_markdown a)) of
              None \<Rightarrow> Inl (Error ''EISDIR: illegal operation on a directory, read'')
            | Some content \<Rightarrow> Inr content)
      else Inr [])"

definition with_frontmatter :: "string \<Rightarrow> string \<Rightarrow> string \<Rightarrow> string" where
  "with_frontmatter ttl stamp content =
     (if \<not> startsWith content ''---'' then frontmatter ttl stamp @ content else content)"

definition docs_draft :: "env \<Rightarrow> world \<Rightarrow> draft_args \<Rightarrow> tool_result \<times> world" where
  "docs_draft e w a =
     (case getDocsBasePath (cwd e) (plugin_ctx e) of
        Inl err \<Rightarrow> (Inl err, w)
      | Inr docsBase \<Rightarrow>
          let w1 = ensure_dir docsBase w in
          (case generateUniqueDocId e w1 of
             Inl err \<Rightarrow> (Inl err, w1)
           | Inr docId \<Rightarrow>
               let draftDir = join docsBase docId;
                   w2 = mkdirSync draftDir w1
               in (case initial_text w2 a of
                     Inl err \<Rightarrow> (Inl err, w2)
                   | Inr content0 \<Rightarrow>
                       let content = with_frontmatter (arg_title a) (clock e 0) content0;
                           draftPath = join draftDir ''draft.md'';
                           w3 = writeFileSync draftPath content w2;
                           meta = \<lparr>title = arg_title a, preset = arg_preset a,
                                   created_at = clock e 1, last_modified = clock e 2,
                                   source_markdown = arg_source_markdown a,
                                   status = StatusDraft\<rparr>;
                           w4 = writeFileSync (join draftDir ''meta.json'') (stringify_meta e meta) w3
                       in (case readRegistry e w4 of
                             Inl err \<Rightarrow> (Inl err, w4)
                           | Inr registry \<Rightarrow>
                               (case writeRegistry e
                                       (registry\<lparr>drafts := AList.update docId meta (drafts registry)\<rparr>) w4 of
                                  Inl err \<Rightarrow> (Inl err, w4)
                                | Inr w5 \<Rightarrow>
                                    (Inr (join_with [newline]
                                       [''Draft created: '' @ arg_title a,
                                        [],
                                        ''Document ID: '' @ docId,
                                        ''Draft path: '' @ draftPath,
                                        ''Preset: '' @ arg_preset a,
                                        [],
                                        ''Next steps:'',
                                        ''1. Edit the draft: '' @ draftPath,
                                        ''2. Compile when ready: docs_compile doc_id=''
                                          @ [dquote] @ docId @ [dquote]]), w5))))))"

text \<open>The lines \<^verbatim>\<open>docs_list_drafts\<close> prints for one entry.\<close>

definition draft_lines :: "world \<Rightarrow> string \<Rightarrow> string \<times> draft_info \<Rightarrow> string list" where
  "draft_lines w docsBase entry =
     (let draftPath = join (join docsBase (fst entry)) ''draft.md'';
          shown = (if existsSync w draftPath then show_status (status (snd entry)) else ''missing'')
      in [fst entry,
          ''  Title: '' @ title (snd entry),
          ''  Preset: '' @ preset (snd entry),
          ''  Status: '' @ shown,
          ''  Modified: '' @ iso_date (last_modified (snd entry)),
          ''  Path: '' @ draftPath,
          []])"

definition docs_list_drafts :: "env \<Rightarrow> world \<Rightarrow> tool_result \<times> world" where
  "docs_list_drafts e w =
     (case readRegistry e w of
        Inl err \<Rightarrow> (Inl err, w)
      | Inr registry \<Rightarrow>
          if drafts registry = [] then (Inr ''No active drafts. Create one with docs_draft.'', w)
          else (case getDocsBasePath (cwd e) (plugin_ctx e) of
                  Inl err \<Rightarrow> (Inl err, w)
                | Inr docsBase \<Rightarrow>
                    (Inr (join_with [newline]
                       ([''Active document drafts:'', []]
                        @ concat (map (draft_lines w docsBase) (drafts registry)))), w)))"

definition docs_delete_draft :: "env \<Rightarrow> world \<Rightarrow> string \<Rightarrow> tool_result \<times> world" where
  "docs_delete_draft e w doc_id =
     (if \<not> isValidDocId doc_id then (Inr (''Invalid document ID format: '' @ doc_id), w)
      else (case readRegistry e w of
              Inl err \<Rightarrow> (Inl err, w)
            | Inr registry \<Rightarrow>
                if map_of (drafts registry) doc_id = None
                then (Inr (''Draft not found: '' @ doc_id), w)
                else (case getDocsBasePath (cwd e) (plugin_ctx e) of
                        Inl err \<Rightarrow> (Inl err, w)
                      | Inr docsBase \<Rightarrow>
                          let draftDir = join docsBase doc_id;
                              w1 = (if existsSync w draftDir then rm_rf draftDir w else w)
                          in (case writeRegistry e
                                     (registry\<lparr>drafts := AList.delete doc_id (drafts registry)\<rparr>) w1 of
                                Inl err \<Rightarrow> (Inl err, w1)
                              | Inr w2 \<Rightarrow> (Inr (''Deleted draft: '' @ doc_id), w2)))))"

section \<open>Running a built command\<close>

text \<open>
  A file that a child process writes at a path of the caller's choice. At the registry
  path the text takes the place of the registry file, and is from then on what
  \<^verbatim>\<open>readRegistry\<close> parses; at any other path it joins the other files. Paths are
  compared as they are written.
\<close>

definition process_writes :: "env \<Rightarrow> string \<Rightarrow> string \<Rightarrow> world \<Rightarrow> world" where
  "process_writes e p content w =
     (if getRegistryPath (cwd e) (plugin_ctx e) = Inr p
      then w\<lparr>registry_file :=
             (case parse_registry e content of
                None \<Rightarrow> Malformed content
              | Some r \<Rightarrow> Json r)\<rparr>
      else w\<lparr>files := (files w)(p \<mapsto> content)\<rparr>)"

text \<open>
  \<^verbatim>\<open>builder.execute(cwd)\<close>: the command is built and started, and the outcome read
  off what the process leaves. A run of pandoc that ends with exit code 0 has written
  the file named after \<^verbatim>\<open>-o\<close>; a run that fails has written none.
\<close>

definition execute :: "env \<Rightarrow> PandocBuilder \<Rightarrow> string option \<Rightarrow> world \<Rightarrow> exec_result \<times> world" where
  "execute e b dir w =
     (let cmd = build b;
          proc = spawn_result e cmd dir;
          w1 = log_spawn cmd w
      in (exec_outcome proc,
          if exitCode proc = 0 \<and> outputFile b \<noteq> []
          then process_writes e (outputFile b) (output_text e cmd dir) w1
          else w1))"

text \<open>\<^verbatim>\<open>s.includes(sub)\<close>\<close>

definition str_includes :: "string \<Rightarrow> string \<Rightarrow> bool" where
  "str_includes s sub = list_ex (\<lambda>i. take (length sub) (drop i s) = sub) [0..<Suc (length s)]"

section \<open>Compiling a draft\<close>

record compile_args =
  doc_id :: string
  output_path :: "string option"
  c_author :: "string option"
  c_date :: "string option"
  c_subtitle :: "string option"
  c_abstract :: "string option"
  c_keywords :: "string option"
  c_bibliography :: "string option"
  c_logo :: "string option"
  c_course :: "string option"
  c_project_title :: "string option"
  c_group :: "string option"
  c_authors :: "string option"
  c_version :: "string option"
  c_project_topic_id :: "string option"

text \<open>The logo variables of the school report, by the \<^verbatim>\<open>logo\<close> argument.\<close>

definition logo_variables :: "string \<Rightarrow> string option \<Rightarrow> PandocBuilder \<Rightarrow> PandocBuilder" where
  "logo_variables assetsDir lg b =
     (if \<not> truthy lg then b
      else if lg = Some ''sit''
      then b_variable ''sit-logo'' (VStr (assetsDir @ ''/sit-logo.png''))
             (b_variable ''logo-mode'' (VStr ''single'') b)
      else if lg = Some ''uofg''
      then b_variable ''uofg-logo'' (VStr (assetsDir @ ''/uofg-logo.png''))
             (b_variable ''logo-mode'' (VStr ''single'') b)
      else if lg = Some ''both''
      then b_variable ''uofg-logo'' (VStr (assetsDir @ ''/uofg-logo.png''))
             (b_variable ''sit-logo'' (VStr (assetsDir @ ''/sit-logo.png''))
               (b_variable ''logo-mode'' (VStr ''both'') b))
      else b)"

text \<open>The builder of \<^verbatim>\<open>docs_compile\<close> up to the authors table.\<close>

definition compile_builder ::
  "env \<Rightarrow> compile_args \<Rightarrow> ResolvedPreset \<Rightarrow> string \<Rightarrow> string \<Rightarrow> PandocBuilder" where
  "compile_builder e a p draftPath outputPath =
     (let b0 = b_listings (applyPreset p (set_output outputPath (set_input draftPath new_builder)));
          b1 = applyMetadata
                 \<lparr>md_title = None, md_author = c_author a, md_date = c_date a,
                  md_subtitle = c_subtitle a, md_abstract = c_abstract a,
                  md_keywords = c_keywords a\<rparr> b0;
          b2 = on_cond (truthy (c_bibliography a)) (b_bibliography (or_empty (c_bibliography a))) b1;
          b3 = logo_variables (userConfigDir (resolver e) @ ''/assets'') (c_logo a) b2;
          b4 = opt_variable ''course'' (c_course a) b3;
          b5 = opt_variable ''project-title'' (c_project_title a) b4;
          b6 = opt_variable ''group'' (c_group a) b5;
          b7 = opt_variable ''version'' (c_version a) b6
      in opt_variable ''project-topic-id'' (c_project_topic_id a) b7)"

definition author_lines :: "author \<Rightarrow> string list" where
  "author_lines au =
     [''  - name: '' @ [dquote] @ escapeYaml (author_name au) @ [dquote]]
     @ (if truthy (sit_id au)
        then [''    sit-id: '' @ [dquote] @ escapeYaml (or_empty (sit_id au)) @ [dquote]] else [])
     @ (if truthy (glasgow_id au)
        then [''    glasgow-id: '' @ [dquote] @ escapeYaml (or_empty (glasgow_id au)) @ [dquote]]
        else [])"

text \<open>The authors table: the argument is parsed, the YAML written beside the draft and
  passed as a metadata file; anything thrown on the way is rethrown as invalid JSON.\<close>

definition authors_table ::
  "env \<Rightarrow> compile_args \<Rightarrow> string \<Rightarrow> PandocBuilder \<Rightarrow> world
     \<Rightarrow> error + (PandocBuilder \<times> string option \<times> world)" where
  "authors_table e a draftDir b w =
     (if \<not> truthy (c_authors a) then Inr (b, None, w)
      else (case parse_authors e (or_empty (c_authors a)) of
              Inl thrown \<Rightarrow> Inl (Error (''Invalid authors JSON: '' @ thrown))
            | Inr authorsArray \<Rightarrow>
                let yamlLines = ''authors:'' # concat (map author_lines authorsArray);
                    metaFile = join draftDir (''authors-'' @ show_nat (now_ms e) @ ''.yaml'')
                in Inr (b_metadataFile metaFile b, Some metaFile,
                        writeFileSync metaFile (join_with [newline] yamlLines) w)))"

text \<open>The template check shared by the preset tools:
  \<^verbatim>\<open>preset.template?.path && !preset.resolved_template_path\<close>.\<close>

definition template_missing :: "ResolvedPreset \<Rightarrow> bool" where
  "template_missing p =
     (case template p of
        None \<Rightarrow> False
      | Some t \<Rightarrow> path t \<noteq> [] \<and> \<not> truthy (resolved_template_path p))"

definition template_error :: "ResolvedPreset \<Rightarrow> error" where
  "template_error p =
     Error (''Template '' @ [squote]
            @ (case template p of None \<Rightarrow> [] | Some t \<Rightarrow> path t)
            @ [squote] @ '' not found. Use docs_templates_install.'')"

text \<open>\<^verbatim>\<open>docs_compile\<close> from the point where the registry has been written.\<close>

definition compile_draft ::
  "env \<Rightarrow> world \<Rightarrow> compile_args \<Rightarrow> draft_info \<Rightarrow> string \<Rightarrow> string \<Rightarrow> tool_result \<times> world" where
  "compile_draft e w a draftInfo draftDir draftPath =
     (let outputPath = (if truthy (output_path a) then or_empty (output_path a)
                        else join draftDir (doc_id a @ ''.pdf''))
      in case loadPreset (stack_depth e) (resolver e) (cache w) (preset draftInfo) (c_logo a) of
           (Inl err, cache1) \<Rightarrow> (Inl err, w\<lparr>cache := cache1\<rparr>)
         | (Inr p, cache1) \<Rightarrow>
             let w1 = w\<lparr>cache := cache1\<rparr> in
             if template_missing p then (Inl (template_error p), w1)
             else (case authors_table e a draftDir (compile_builder e a p draftPath outputPath) w1 of
                     Inl err \<Rightarrow> (Inl err, w1)
                   | Inr (b, metaFileToCleanup, w2) \<Rightarrow>
                       (case execute e b None w2 of
                          (result, w3) \<Rightarrow>
                            let w4 = (case metaFileToCleanup of
                                        None \<Rightarrow> w3
                                      | Some f \<Rightarrow> if existsSync w3 f then rm_f f w3 else w3)
                            in (case result of
                                  Failure reason \<Rightarrow>
                                    (Inl (Error (''Compilation failed:'' @ [newline] @ reason)), w4)
                                | Success out \<Rightarrow>
                                    (Inr (''Compiled: '' @ outputPath @ [newline]
                                          @ ''Document: '' @ title draftInfo @ [newline]
                                          @ ''Preset: '' @ preset draftInfo), w4)))))"

definition docs_compile :: "env \<Rightarrow> world \<Rightarrow> compile_args \<Rightarrow> tool_result \<times> world" where
  "docs_compile e w a =
     (if \<not> isValidDocId (doc_id a) then (Inr (''Invalid document ID format: '' @ doc_id a), w)
      else (case readRegistry e w of
              Inl err \<Rightarrow> (Inl err, w)
            | Inr registry \<Rightarrow>
                (case map_of (drafts registry) (doc_id a) of
                   None \<Rightarrow>
                     (Inr (''Draft not found: '' @ doc_id a
                           @ ''. Use docs_list_drafts to see available drafts.''), w)
                 | Some draftInfo0 \<Rightarrow>
                     (case getDocsBasePath (cwd e) (plugin_ctx e) of
                        Inl err \<Rightarrow> (Inl err, w)
                      | Inr docsBase \<Rightarrow>
                          let draftDir = join docsBase (doc_id a);
                              draftPath = join draftDir ''draft.md''
                          in if \<not> existsSync w draftPath
                             then (Inr (''Draft file missing: '' @ draftPath), w)
                             else let draftInfo = draftInfo0\<lparr>last_modified := clock e 0,
                                                               status := StatusCompiled\<rparr>
                                  in (case writeRegistry e
                                             (registry\<lparr>drafts :=
                                                AList.update (doc_id a) draftInfo (drafts registry)\<rparr>) w of
                                        Inl err \<Rightarrow> (Inl err, w)
                                      | Inr w1 \<Rightarrow>
                                          compile_draft e w1 a draftInfo draftDir draftPath)))))"

section \<open>The other conversion tools\<close>

definition docs_convert ::
  "env \<Rightarrow> world \<Rightarrow> string \<Rightarrow> string \<Rightarrow> string option \<Rightarrow> string option \<Rightarrow> tool_result \<times> world" where
  "docs_convert e w input_path output_format from_fmt output_dir =
     (let outputPath = computeOutputPath input_path output_dir output_format;
          b = on_cond (truthy from_fmt) (b_from (or_empty from_fmt))
                (set_output outputPath (set_input input_path new_builder))
      in case execute e b None w of
           (Failure reason, w1) \<Rightarrow> (Inl (Error (''Pandoc failed:'' @ [newline] @ reason)), w1)
         | (Success out, w1) \<Rightarrow> (Inr (''Converted '' @ input_path @ '' to '' @ outputPath), w1))"

text \<open>\<^verbatim>\<open>docs_compile_latex\<close> starts \<^verbatim>\<open>pdflatex\<close> itself, without the builder, and reads
  only the standard-error stream of a failed run. The files \<^verbatim>\<open>pdflatex\<close> writes are
  named after the input file (\<^verbatim>\<open>.pdf\<close>, \<^verbatim>\<open>.log\<close>, \<^verbatim>\<open>.aux\<close>) and are not part of
  the world.\<close>

definition docs_compile_latex ::
  "env \<Rightarrow> world \<Rightarrow> string \<Rightarrow> string option \<Rightarrow> tool_result \<times> world" where
  "docs_compile_latex e w file_path output_dir =
     (if \<not> endsWith file_path ''.tex'' then (Inl (Error ''Input file must be a .tex file''), w)
      else let inputDir = parent_dir file_path;
               outputDir = (if truthy output_dir then or_empty output_dir else inputDir);
               cmd = [''pdflatex'', ''-output-directory'', outputDir,
                      ''-interaction=nonstopmode'', file_path];
               proc = spawn_result e cmd None;
               w1 = log_spawn cmd w
           in if exitCode proc \<noteq> 0
              then (Inl (Error (''Compilation failed:'' @ [newline] @ proc_stderr proc)), w1)
              else (Inr (''Compiled '' @ file_path @ '' to PDF.''), w1))"

record create_args =
  input_path :: string
  cr_preset :: string
  cr_output_dir :: "string option"
  cr_logo :: "string option"
  cr_title :: "string option"
  cr_author :: "string option"
  cr_date :: "string option"
  cr_subtitle :: "string option"
  cr_abstract :: "string option"
  cr_keywords :: "string option"
  cr_bibliography :: "string option"

definition create_builder :: "create_args \<Rightarrow> ResolvedPreset \<Rightarrow> string \<Rightarrow> PandocBuilder" where
  "create_builder a p outputPath =
     on_cond (truthy (cr_bibliography a)) (b_bibliography (or_empty (cr_bibliography a)))
       (applyMetadata
          \<lparr>md_title = cr_title a, md_author = cr_author a, md_date = cr_date a,
           md_subtitle = cr_subtitle a, md_abstract = cr_abstract a,
           md_keywords = cr_keywords a\<rparr>
          (b_listings (applyPreset p (set_output outputPath (set_input (input_path a) new_builder)))))"

text \<open>A preset's name inside a template literal.\<close>

definition show_name :: "string option \<Rightarrow> string" where
  "show_name n = (case n of None \<Rightarrow> ''undefined'' | Some s \<Rightarrow> s)"

text \<open>The outcome of a preset tool's run: the failure reason thrown, or the tool's text.\<close>

definition create_result :: "exec_result \<Rightarrow> string \<Rightarrow> tool_result" where
  "create_result r done_text =
     (case r of
        Failure reason \<Rightarrow> Inl (Error (''Failed:'' @ [newline] @ reason))
      | Success out \<Rightarrow> Inr done_text)"

text \<open>\<^verbatim>\<open>docs_create\<close> of the packaged plugin: an IEEE preset with a resolved template
  runs from the template's directory, with simple tables.\<close>

definition docs_create :: "env \<Rightarrow> world \<Rightarrow> create_args \<Rightarrow> tool_result \<times> world" where
  "docs_create e w a =
     (case loadPreset (stack_depth e) (resolver e) (cache w) (cr_preset a) (cr_logo a) of
        (Inl err, cache1) \<Rightarrow> (Inl err, w\<lparr>cache := cache1\<rparr>)
      | (Inr p, cache1) \<Rightarrow>
          let w1 = w\<lparr>cache := cache1\<rparr> in
          if template_missing p then (Inl (template_error p), w1)
          else let outputPath = computeOutputPath (input_path a) (cr_output_dir a) ''pdf'';
                   b = create_builder a p outputPath;
                   isIeee = ((case name p of None \<Rightarrow> False | Some n \<Rightarrow> str_includes n ''ieee'')
                             \<or> str_includes (cr_preset a) ''ieee'');
                   viaTemplateDir = (isIeee \<and> truthy (resolved_template_path p));
                   dir = (if viaTemplateDir
                          then Some (parent_dir (or_empty (resolved_template_path p))) else None);
                   b1 = on_cond viaTemplateDir (simple_tables e) b
               in case execute e b1 dir w1 of
                    (r, w2) \<Rightarrow>
                      (create_result r (''Created: '' @ outputPath @ [newline]
                                        @ ''Preset: '' @ show_name (name p)), w2))"

text \<open>\<^verbatim>\<open>docs_create\<close> of the plugin file under \<^verbatim>\<open>plugins/\<close>: the same, always run from
  the current directory.\<close>

definition docs_create_legacy :: "env \<Rightarrow> world \<Rightarrow> create_args \<Rightarrow> tool_result \<times> world" where
  "docs_create_legacy e w a =
     (case loadPreset (stack_depth e) (resolver e) (cache w) (cr_preset a) (cr_logo a) of
        (Inl err, cache1) \<Rightarrow> (Inl err, w\<lparr>cache := cache1\<rparr>)
      | (Inr p, cache1) \<Rightarrow>
          let w1 = w\<lparr>cache := cache1\<rparr> in
          if template_missing p then (Inl (template_error p), w1)
          else let outputPath = computeOutputPath (input_path a) (cr_output_dir a) ''pdf''
               in case execute e (create_builder a p outputPath) None w1 of
                    (r, w2) \<Rightarrow>
                      (create_result r (''Created: '' @ outputPath @ [newline]
                                        @ ''Preset: '' @ show_name (name p)), w2))"

section \<open>Installing templates\<close>

datatype install_source = Eisvogel | Ieee | CslIeee | CslApa | CslAcm

definition show_source :: "install_source \<Rightarrow> string" where
  "show_source src =
     (case src of Eisvogel \<Rightarrow> ''eisvogel'' | Ieee \<Rightarrow> ''ieee'' | CslIeee \<Rightarrow> ''csl-ieee''
      | CslApa \<Rightarrow> ''csl-apa'' | CslAcm \<Rightarrow> ''csl-acm'')"

text \<open>
  A child process of the install tool: it joins the log and answers with its result.
  What \<^verbatim>\<open>curl\<close>, \<^verbatim>\<open>tar\<close> and \<^verbatim>\<open>cp\<close> put on disk is not part of the world; a later
  call sees it through the resolver it is given.
\<close>

definition run_proc :: "env \<Rightarrow> string list \<Rightarrow> world \<Rightarrow> proc_result \<times> world" where
  "run_proc e cmd w = (spawn_result e cmd None, log_spawn cmd w)"

definition mkdir_p :: "string \<Rightarrow> world \<Rightarrow> world" where
  "mkdir_p d w = mkdirSync d (log_spawn [''mkdir'', ''-p'', d] w)"

definition eisvogel_url :: string where
  "eisvogel_url =
     ''https://github.com/Wandmalfarbe/pandoc-latex-template/releases/download/v3.3.0/Eisvogel.tar.gz''"

definition ieee_template_url :: string where
  "ieee_template_url =
     ''https://raw.githubusercontent.com/stsewd/ieee-pandoc-template/master/template.latex''"

definition ieee_class_url :: string where
  "ieee_class_url = ''http://mirrors.ctan.org/macros/latex/contrib/IEEEtran/IEEEtran.cls''"

text \<open>The table \<^verbatim>\<open>urls\<close>: address and destination of a CSL style.\<close>

definition csl_urls :: "string \<Rightarrow> install_source \<Rightarrow> string \<times> string" where
  "csl_urls userDir src =
     (case src of
        CslApa \<Rightarrow>
          (''https://raw.githubusercontent.com/citation-style-language/styles/master/apa.csl'',
           userDir @ ''/csl/apa.csl'')
      | CslAcm \<Rightarrow>
          (''https://raw.githubusercontent.com/citation-style-language/styles/master/acm-sig-proceedings.csl'',
           userDir @ ''/csl/acm-sig-proceedings.csl'')
      | _ \<Rightarrow>
          (''https://raw.githubusercontent.com/citation-style-language/styles/master/ieee.csl'',
           userDir @ ''/csl/ieee.csl''))"

text \<open>The IEEE branch and the CSL branch are the same in both plugin files.\<close>

definition install_ieee :: "env \<Rightarrow> world \<Rightarrow> tool_result \<times> world" where
  "install_ieee e w =
     (let ieeeDir = userConfigDir (resolver e) @ ''/templates/ieee'';
          w1 = mkdir_p ieeeDir w;
          tplRes = fetch e ieee_template_url
      in if \<not> fetch_ok tplRes
         then (Inl (Error (''Template download failed: HTTP '' @ show_nat (fetch_status tplRes))), w1)
         else let w2 = writeFileSync (ieeeDir @ ''/template.latex'') (fetch_text tplRes) w1
              in case run_proc e [''curl'', ''-sL'', ''-o'', ieeeDir @ ''/IEEEtran.cls'', ieee_class_url] w2 of
                   (clsProc, w3) \<Rightarrow>
                     if exitCode clsProc \<noteq> 0
                     then (Inl (Error ''Failed to download IEEEtran.cls from CTAN''), w3)
                     else (Inr (''Installed IEEE template + IEEEtran.cls to '' @ ieeeDir),
                           w3\<lparr>cache := clearCache (cache w3)\<rparr>))"

definition install_csl :: "env \<Rightarrow> world \<Rightarrow> install_source \<Rightarrow> tool_result \<times> world" where
  "install_csl e w src =
     (case csl_urls (userConfigDir (resolver e)) src of
        (url, dest) \<Rightarrow>
          let w1 = mkdir_p (parent_dir dest) w;
              res = fetch e url
          in if \<not> fetch_ok res then (Inl (Error (''HTTP '' @ show_nat (fetch_status res))), w1)
             else let w2 = writeFileSync dest (fetch_text res) w1
                  in (Inr (''Installed '' @ show_source src @ '' to '' @ dest),
                      w2\<lparr>cache := clearCache (cache w2)\<rparr>))"

text \<open>The Eisvogel branch of the packaged plugin: download, then extract.\<close>

definition install_eisvogel :: "env \<Rightarrow> world \<Rightarrow> tool_result \<times> world" where
  "install_eisvogel e w =
     (let dest = userConfigDir (resolver e) @ ''/templates/eisvogel.latex'';
          tmpDir = ''/tmp/eisvogel-install'';
          w1 = mkdir_p tmpDir (rm_rf tmpDir w)
      in case run_proc e [''curl'', ''-sL'', ''-o'', tmpDir @ ''/template.tar.gz'', eisvogel_url] w1 of
           (dlProc, w2) \<Rightarrow>
             if exitCode dlProc \<noteq> 0
             then (Inl (Error (''Download failed: '' @ proc_stderr dlProc)), w2)
             else (case run_proc e [''tar'', ''-xz'', ''-C'', tmpDir, ''-f'',
                                    tmpDir @ ''/template.tar.gz''] w2 of
                     (tarProc, w3) \<Rightarrow>
                       if exitCode tarProc \<noteq> 0
                       then (Inl (Error (''Extraction failed: '' @ proc_stderr tarProc)), w3)
                       else let w4 = log_spawn [''cp'', tmpDir @ ''/eisvogel.latex'', dest] w3;
                                w5 = rm_rf tmpDir w4
                            in (Inr (''Installed eisvogel to '' @ dest),
                                w5\<lparr>cache := clearCache (cache w5)\<rparr>)))"

text \<open>The Eisvogel branch of the plugin file under \<^verbatim>\<open>plugins/\<close>: one shell pipeline.\<close>

definition install_eisvogel_legacy :: "env \<Rightarrow> world \<Rightarrow> tool_result \<times> world" where
  "install_eisvogel_legacy e w =
     (let dest = userConfigDir (resolver e) @ ''/templates/eisvogel.latex'';
          tmpDir = ''/tmp/eisvogel-install'';
          w1 = mkdir_p tmpDir (rm_rf tmpDir w)
      in case run_proc e [''sh'', ''-c'',
                          ''curl -sL '' @ [dquote] @ eisvogel_url @ [dquote]
                          @ '' | tar -xz -C '' @ [dquote] @ tmpDir @ [dquote]] w1 of
           (proc, w2) \<Rightarrow>
             if exitCode proc \<noteq> 0
             then (Inl (Error (''Download failed: '' @ proc_stderr proc)), w2)
             else let w3 = log_spawn [''cp'', tmpDir @ ''/eisvogel.latex'', dest] w2;
                      w4 = rm_rf tmpDir w3
                  in (Inr (''Installed eisvogel to '' @ dest),
                      w4\<lparr>cache := clearCache (cache w4)\<rparr>))"

text \<open>\<^verbatim>\<open>docs_templates_install\<close>. \<open>ensure\<close> stands for
  \<^verbatim>\<open>resolver.ensureUserConfigDirs()\<close>, a method of the resolver, which may throw.\<close>

definition docs_templates_install ::
  "env \<Rightarrow> (world \<Rightarrow> error + world) \<Rightarrow> world \<Rightarrow> install_source \<Rightarrow> tool_result \<times> world" where
  "docs_templates_install e ensure w src =
     (case ensure w of
        Inl err \<Rightarrow> (Inl err, w)
      | Inr w0 \<Rightarrow>
          if src = Eisvogel then install_eisvogel e w0
          else if src = Ieee then install_ieee e w0
          else install_csl e w0 src)"

definition docs_templates_install_legacy ::
  "env \<Rightarrow> (world \<Rightarrow> error + world) \<Rightarrow> world \<Rightarrow> install_source \<Rightarrow> tool_result \<times> world" where
  "docs_templates_install_legacy e ensure w src =
     (case ensure w of
        Inl err \<Rightarrow> (Inl err, w)
      | Inr w0 \<Rightarrow>
          if src = Eisvogel then install_eisvogel_legacy e w0
          else if src = Ieee then install_ieee e w0
          else install_csl e w0 src)"

section \<open>A small project, for running the tools\<close>

definition example_ctx :: ctx where
  "example_ctx = \<lparr>worktree = Some ''/proj'', directory = ''/proj''\<rparr>"

definition no_scopes :: scopes where
  "no_scopes = \<lparr>in_project = Map.empty, in_user = Map.empty, in_builtin = Map.empty\<rparr>"

definition example_resolver :: TemplateResolver where
  "example_resolver =
     \<lparr>preset_scopes = no_scopes, template_scopes = no_scopes, csl_scopes = no_scopes,
      asset_scopes = no_scopes, asset_of_inherited = (\<lambda>key. Inr None),
      preset_file = (\<lambda>p. Inl (Error ''ENOENT'')),
      fs_preset_names = [], userConfigDir = ''/home/u/.config/opencode''\<rparr>"

definition example_env :: env where
  "example_env =
     \<lparr>plugin_ctx = example_ctx, cwd = ''/proj'',
      clock = (\<lambda>k. ''2026-01-02T03:04:05.000Z''), now_ms = 1767323045000,
      random = (\<lambda>k. (0, 0, 0)), stack_depth = 8, resolver = example_resolver,
      spawn_result = (\<lambda>cmd dir. \<lparr>exitCode = 0, proc_stdout = [], proc_stderr = []\<rparr>),
      fetch = (\<lambda>url. \<lparr>fetch_ok = True, fetch_status = 200, fetch_text = ''x''\<rparr>),
      parse_authors = (\<lambda>s. Inl ''SyntaxError''),
      stringify_meta = (\<lambda>m. ''{}''),
      simple_tables = (\<lambda>b. b),
      output_text = (\<lambda>cmd dir. ''%PDF-1.5''),
      parse_registry = (\<lambda>content. None)\<rparr>"

definition empty_world :: world where
  "empty_world =
     \<lparr>registry_file = Absent, files = Map.empty, dirs = {}, cache = Map.empty, spawned = []\<rparr>"

definition example_draft_args :: draft_args where
  "example_draft_args =
     \<lparr>arg_title = ''Notes'', arg_preset = ''eisvogel'', initial_content = Some ''# Heading'',
      arg_source_markdown = None\<rparr>"

definition example_compile_args :: compile_args where
  "example_compile_args =
     \<lparr>doc_id = ''amber-apple-100'', output_path = None, c_author = None, c_date = None,
      c_subtitle = None, c_abstract = None, c_keywords = None, c_bibliography = None,
      c_logo = None, c_course = None, c_project_title = None, c_group = None,
      c_authors = None, c_version = None, c_project_topic_id = None\<rparr>"





text \<open>A registry in which the first identifier drawn and its timestamped form are both taken.\<close>

definition old_info :: draft_info where
  "old_info =
     \<lparr>title = ''Old'', preset = ''eisvogel'', created_at = ''2025-12-01T10:00:00.000Z'',
      last_modified = ''2025-12-02T10:00:00.000Z'', source_markdown = None,
      status = StatusCompiled\<rparr>"

definition collide_world :: world where
  "collide_world =
     empty_world\<lparr>registry_file :=
       Json \<lparr>drafts = [(''amber-apple-100'', old_info),
                       (''amber-apple-100-1767323045000'', old_info)]\<rparr>\<rparr>"

text \<open>A project with one draft, made with the Eisvogel preset; no template is installed.\<close>

definition draft_entry :: draft_info where
  "draft_entry =
     \<lparr>title = ''Notes'', preset = ''eisvogel'', created_at = ''2025-12-01T10:00:00.000Z'',
      last_modified = ''2025-12-01T10:00:00.000Z'', source_markdown = None,
      status = StatusDraft\<rparr>"

definition drafted_world :: world where
  "drafted_world =
     empty_world
       \<lparr>registry_file := Json \<lparr>drafts = [(''amber-apple-100'', draft_entry)]\<rparr>,
        files := [''/proj/.opencode/docs/amber-apple-100/draft.md'' \<mapsto> ''# Heading'']\<rparr>"

definition example_create_args :: create_args where
  "example_create_args =
     \<lparr>input_path = ''/proj/notes.md'', cr_preset = ''eisvogel'', cr_output_dir = None,
      cr_logo = None, cr_title = Some ''Notes'', cr_author = None, cr_date = None,
      cr_subtitle = None, cr_abstract = None, cr_keywords = None, cr_bibliography = None\<rparr>"

text \<open>A world with a resolved preset in the cache.\<close>

definition cached_world :: world where
  "cached_world = empty_world\<lparr>cache := [''eisvogel:'' \<mapsto> unresolved no_preset]\<rparr>"

text \<open>An environment in which every child process fails, with its message on standard output.\<close>

definition failing_env :: env where
  "failing_env =
     example_env\<lparr>spawn_result :=
       (\<lambda>cmd dir. \<lparr>exitCode = 1, proc_stdout = ''! Undefined control sequence.'',
                    proc_stderr = []\<rparr>)\<rparr>"





section \<open>Notions used in the proofs\<close>

text \<open>The characters a pattern can match at all.\<close>

fun alphabet :: "regex \<Rightarrow> char set" where
  "alphabet Eps = {}"
| "alphabet (Rng lo hi) = {c. lo \<le> c \<and> c \<le> hi}"
| "alphabet (Seq r1 r2) = alphabet r1 \<union> alphabet r2"
| "alphabet (Alt r1 r2) = alphabet r1 \<union> alphabet r2"
| "alphabet (Plus r) = alphabet r"

text \<open>A non-empty word of lower-case letters.\<close>

definition is_word :: "string \<Rightarrow> bool" where
  "is_word w = (w \<noteq> [] \<and> (\<forall>c \<in> set w. CHR ''a'' \<le> c \<and> c \<le> CHR ''z''))"

text \<open>A registry file that does not read as a registry.\<close>

definition unreadable :: "registry_file \<Rightarrow> bool" where
  "unreadable f = (case f of Absent \<Rightarrow> True | Malformed content \<Rightarrow> True | Json r \<Rightarrow> False)"

text \<open>The registry a world holds, as \<^verbatim>\<open>readRegistry\<close> reads it, and its entries by key.\<close>

definition stored_registry :: "world \<Rightarrow> DocRegistry" where
  "stored_registry w =
     (case registry_file w of Absent \<Rightarrow> \<lparr>drafts = []\<rparr> | Malformed content \<Rightarrow> \<lparr>drafts = []\<rparr>
      | Json r \<Rightarrow> r)"

definition entry_of :: "world \<Rightarrow> string \<Rightarrow> draft_info option" where
  "entry_of w = map_of (drafts (stored_registry w))"






section \<open>Identifiers: what is generated is accepted\<close>

lemma splits_iff: "(u, v) \<in> set (splits s) \<longleftrightarrow> u @ v = s"
proof (induction s arbitrary: u v)
  case Nil
  then show ?case by auto
next
  case (Cons x xs)
  show ?case
  proof (cases u)
    case Nil
    then show ?thesis using Cons by auto
  next
    case (Cons y ys)
    then show ?thesis using Cons.IH [of ys v] by auto
  qed
qed

lemma matches_Seq_append:
  "matches r1 u \<Longrightarrow> matches r2 v \<Longrightarrow> matches (Seq r1 r2) (u @ v)"
  by (auto simp: list_ex_iff splits_iff intro!: bexI [of _ "(u, v)"])

lemma matches_Plus_step:
  "u \<noteq> [] \<Longrightarrow> matches r u \<Longrightarrow> v = [] \<or> matches (Plus r) v \<Longrightarrow> matches (Plus r) (u @ v)"
proof -
  assume a: "u \<noteq> []" "matches r u" "v = [] \<or> matches (Plus r) v"
  have "(u, v) \<in> set (splits (u @ v))" by (simp only: splits_iff)
  then have "\<exists>p \<in> set (splits (u @ v)). (if fst p = [] then False
                   else matches r (fst p) \<and>
                     (if snd p = [] then True else matches (Plus r) (snd p)))"
    using a by (intro bexI [of _ "(u, v)"]) auto
  then show ?thesis
    by (subst matches.simps) (simp only: list_ex_iff)
qed

lemma matches_Plus_Rng:
  "s \<noteq> [] \<Longrightarrow> \<forall>c \<in> set s. lo \<le> c \<and> c \<le> hi \<Longrightarrow> matches (Plus (Rng lo hi)) s"
proof (induction s)
  case Nil
  then show ?case by simp
next
  case (Cons c t)
  have "matches (Rng lo hi) [c]" using Cons.prems by simp
  moreover have "t = [] \<or> matches (Plus (Rng lo hi)) t" using Cons by auto
  ultimately have "matches (Plus (Rng lo hi)) ([c] @ t)"
    by (intro matches_Plus_step) simp_all
  then show ?case by simp
qed

lemma matches_alphabet: "matches r s \<Longrightarrow> set s \<subseteq> alphabet r"
proof (induction r s rule: matches.induct)
  case (1 s)
  then show ?case by simp
next
  case (2 lo hi s)
  then show ?case by (auto split: list.splits)
next
  case (3 r1 r2 s)
  then obtain u v where uv: "(u, v) \<in> set (splits s)" "matches r1 u" "matches r2 v"
    by (auto simp: list_ex_iff)
  then have "s = u @ v" by (simp add: splits_iff)
  then show ?case using 3 uv by fastforce
next
  case (4 r1 r2 s)
  then show ?case by auto
next
  case (5 r s)
  from 5(3) obtain u v where uv: "(u, v) \<in> set (splits s)" "u \<noteq> []" "matches r u"
      "v = [] \<or> matches (Plus r) v"
    by (subst (asm) matches.simps) (auto simp: list_ex_iff split: if_splits)
  then have s: "s = u @ v" by (simp add: splits_iff)
  have "set u \<subseteq> alphabet r" using 5(1) [of "(u, v)"] uv by simp
  moreover have "set v \<subseteq> alphabet r"
  proof (cases "v = []")
    case True
    then show ?thesis by simp
  next
    case False
    then show ?thesis using 5(2) [of "(u, v)"] uv by simp
  qed
  ultimately show ?case using s by auto
qed

lemma digit_chars_range: "k < 10 \<Longrightarrow> CHR ''0'' \<le> digit_chars ! k \<and> digit_chars ! k \<le> CHR ''9''"
proof -
  assume k: "k < 10"
  have "\<forall>c \<in> set digit_chars. CHR ''0'' \<le> c \<and> c \<le> CHR ''9''"
    by (simp add: digit_chars_def)
  moreover have "digit_chars ! k \<in> set digit_chars"
    using k by (intro nth_mem) (simp add: digit_chars_def)
  ultimately show ?thesis by blast
qed

lemma show_nat_digits:
  "show_nat n \<noteq> [] \<and> (\<forall>c \<in> set (show_nat n). CHR ''0'' \<le> c \<and> c \<le> CHR ''9'')"
proof (induction n rule: show_nat.induct)
  case (1 n)
  show ?case
  proof (cases "n < 10")
    case True
    then have "show_nat n = [digit_chars ! n]"
      by (subst show_nat.simps) simp
    then show ?thesis using True digit_chars_range [of n] by simp
  next
    case False
    then have "show_nat n = show_nat (n div 10) @ [digit_chars ! (n mod 10)]"
      by (subst show_nat.simps) simp
    then show ?thesis using False 1 digit_chars_range [of "n mod 10"] by simp
  qed
qed

lemma adjectives_words: "\<forall>w \<in> set ADJECTIVES. is_word w"
  by (simp add: ADJECTIVES_def is_word_def)

lemma nouns_words: "\<forall>w \<in> set NOUNS. is_word w"
  by (simp add: NOUNS_def is_word_def)

lemma matches_docIdPattern:
  assumes "is_word adj" "is_word noun"
    and "num \<noteq> []" "\<forall>c \<in> set num. CHR ''0'' \<le> c \<and> c \<le> CHR ''9''"
    and "rest = [] \<or> (\<exists>ds. rest = ''-'' @ ds \<and> ds \<noteq> [] \<and> (\<forall>c \<in> set ds. CHR ''0'' \<le> c \<and> c \<le> CHR ''9''))"
  shows "isValidDocId (adj @ ''-'' @ noun @ ''-'' @ num @ rest)"
proof -
  have a: "matches (Plus lower) adj" "matches (Plus lower) noun"
    using assms(1,2) by (auto simp: is_word_def lower_def intro: matches_Plus_Rng)
  have h: "matches hyphen ''-''" by (simp add: hyphen_def)
  have n: "matches (Plus digit) num"
    using assms(3,4) by (auto simp: digit_def intro: matches_Plus_Rng)
  have t: "matches (Alt (Seq hyphen (Plus digit)) Eps) rest"
  proof (cases "rest = []")
    case True
    then show ?thesis by simp
  next
    case False
    then obtain ds where ds: "rest = ''-'' @ ds" "ds \<noteq> []"
        "\<forall>c \<in> set ds. CHR ''0'' \<le> c \<and> c \<le> CHR ''9''"
      using assms(5) by blast
    then have "matches (Plus digit) ds" by (auto simp: digit_def intro: matches_Plus_Rng)
    with h have "matches (Seq hyphen (Plus digit)) (''-'' @ ds)" by (rule matches_Seq_append)
    then show ?thesis using ds(1) by simp
  qed
  have "matches docIdPattern (adj @ (''-'' @ (noun @ (''-'' @ (num @ rest)))))"
    unfolding docIdPattern_def
    by (intro matches_Seq_append a h n t)
  then show ?thesis by (simp add: isValidDocId_def)
qed

lemma generateDocId_shape:
  "\<exists>adj noun num. generateDocId d = adj @ ''-'' @ noun @ ''-'' @ num \<and> is_word adj \<and> is_word noun
     \<and> num \<noteq> [] \<and> (\<forall>c \<in> set num. CHR ''0'' \<le> c \<and> c \<le> CHR ''9'')"
proof -
  obtain r1 r2 r3 where d: "d = (r1, r2, r3)" by (cases d)
  have la: "r1 mod length ADJECTIVES < length ADJECTIVES" by (simp add: ADJECTIVES_def)
  have ln: "r2 mod length NOUNS < length NOUNS" by (simp add: NOUNS_def)
  have "is_word (ADJECTIVES ! (r1 mod length ADJECTIVES))"
    using adjectives_words nth_mem [OF la] by blast
  moreover have "is_word (NOUNS ! (r2 mod length NOUNS))"
    using nouns_words nth_mem [OF ln] by blast
  moreover have "generateDocId d =
      ADJECTIVES ! (r1 mod length ADJECTIVES) @ ''-'' @ NOUNS ! (r2 mod length NOUNS) @ ''-''
        @ show_nat (r3 mod 900 + 100)"
    by (simp add: generateDocId_def d Let_def)
  ultimately show ?thesis
    using show_nat_digits [of "r3 mod 900 + 100"] by blast
qed

lemma generateDocId_valid: "isValidDocId (generateDocId d)"
proof -
  obtain adj noun num where s: "generateDocId d = adj @ ''-'' @ noun @ ''-'' @ num"
      "is_word adj" "is_word noun" "num \<noteq> []" "\<forall>c \<in> set num. CHR ''0'' \<le> c \<and> c \<le> CHR ''9''"
    using generateDocId_shape by blast
  then show ?thesis using matches_docIdPattern [of adj noun num "[]"] by simp
qed

lemma generateDocId_stamped_valid: "isValidDocId (generateDocId d @ ''-'' @ show_nat ms)"
proof -
  obtain adj noun num where s: "generateDocId d = adj @ ''-'' @ noun @ ''-'' @ num"
      "is_word adj" "is_word noun" "num \<noteq> []" "\<forall>c \<in> set num. CHR ''0'' \<le> c \<and> c \<le> CHR ''9''"
    using generateDocId_shape by blast
  then show ?thesis
    using matches_docIdPattern [of adj noun num "''-'' @ show_nat ms"] show_nat_digits [of ms]
    by simp
qed

lemma id_loop_drawn: "\<exists>k. fst (id_loop ds rnd n) = generateDocId (rnd k)"
proof (induction ds rnd n rule: id_loop.induct)
  case (1 ds rnd attempts)
  show ?case
    by (subst id_loop.simps) (use 1 in \<open>auto simp: Let_def\<close>)
qed

lemma unique_id_valid: "isValidDocId (unique_id ds rnd ms)"
proof -
  obtain k where "fst (id_loop ds rnd 0) = generateDocId (rnd k)"
    using id_loop_drawn by blast
  moreover have "\<And>j. isValidDocId (generateDocId (rnd j) @ CHR ''-'' # show_nat ms)"
    using generateDocId_stamped_valid by simp
  ultimately show ?thesis
    by (auto simp: unique_id_def generateDocId_valid split: prod.splits)
qed

lemma valid_id_chars:
  assumes "isValidDocId s" and "c \<in> set s"
  shows "(CHR ''a'' \<le> c \<and> c \<le> CHR ''z'') \<or> (CHR ''0'' \<le> c \<and> c \<le> CHR ''9'') \<or> c = CHR ''-''"
proof -
  have "set s \<subseteq> alphabet docIdPattern"
    using assms(1) by (simp add: isValidDocId_def matches_alphabet)
  then have "c \<in> alphabet docIdPattern" using assms(2) by blast
  then show ?thesis
    by (auto simp: docIdPattern_def lower_def digit_def hyphen_def)
qed

lemma valid_id_no_separator:
  "isValidDocId s \<Longrightarrow> CHR ''/'' \<notin> set s \<and> CHR ''.'' \<notin> set s \<and> backslash \<notin> set s"
  using valid_id_chars [of s "CHR ''/''"] valid_id_chars [of s "CHR ''.''"]
    valid_id_chars [of s backslash]
  by (auto simp: backslash_def)

lemma compile_not_rejected:
  "isValidDocId (doc_id a) \<Longrightarrow>
     fst (docs_compile e w a) \<noteq> Inr (''Invalid document ID format: '' @ doc_id a)"
  by (auto simp: docs_compile_def compile_draft_def Let_def
      split: sum.splits option.splits prod.splits exec_result.splits if_splits)

lemma delete_not_rejected:
  "isValidDocId d \<Longrightarrow>
     fst (docs_delete_draft e w d) \<noteq> Inr (''Invalid document ID format: '' @ d)"
  by (auto simp: docs_delete_draft_def Let_def
      split: sum.splits option.splits prod.splits if_splits)

lemma example_generated_id:
  "generateUniqueDocId example_env empty_world = Inr ''amber-apple-100''"
  by (simp add: generateUniqueDocId_def readRegistry_def getRegistryPath_def project_base_def
      example_env_def example_ctx_def empty_world_def truthy_def or_empty_def join_def
      unique_id_def id_loop.simps generateDocId_def ADJECTIVES_def NOUNS_def show_nat.simps
      digit_chars_def Let_def)

text \<open>
  C9. Whatever \<^verbatim>\<open>generateUniqueDocId\<close> returns, for any registry, any random draws and
  any clock, in the plain adjective-noun-number form or with the timestamp suffix of the
  fallback, matches the pattern of \<^verbatim>\<open>isValidDocId\<close>. So \<^verbatim>\<open>docs_compile\<close> and
  \<^verbatim>\<open>docs_delete_draft\<close>, in any environment and world, do not answer a generated
  identifier with the invalid-format text. And an identifier that the pattern accepts has
  no slash, no backslash and no dot in it, hence no path separator and no \<^verbatim>\<open>..\<close> segment.
\<close>

theorem generated_doc_id_accepted:
  "(generateUniqueDocId e w = Inr docId \<longrightarrow>
      isValidDocId docId
      \<and> fst (docs_compile e' w' (a\<lparr>doc_id := docId\<rparr>))
          \<noteq> Inr (''Invalid document ID format: '' @ docId)
      \<and> fst (docs_delete_draft e' w' docId) \<noteq> Inr (''Invalid document ID format: '' @ docId))
   \<and> (isValidDocId s \<longrightarrow> CHR ''/'' \<notin> set s \<and> CHR ''.'' \<notin> set s \<and> backslash \<notin> set s)"
proof (intro conjI impI)
  assume g: "generateUniqueDocId e w = Inr docId"
  then show v: "isValidDocId docId"
    by (auto simp: generateUniqueDocId_def unique_id_valid split: sum.splits)
  show "fst (docs_compile e' w' (a\<lparr>doc_id := docId\<rparr>))
          \<noteq> Inr (''Invalid document ID format: '' @ docId)"
    using v compile_not_rejected [of "a\<lparr>doc_id := docId\<rparr>" e' w'] by simp
  show "fst (docs_delete_draft e' w' docId) \<noteq> Inr (''Invalid document ID format: '' @ docId)"
    using v by (rule delete_not_rejected)
next
  assume "isValidDocId s"
  then show "CHR ''/'' \<notin> set s" "CHR ''.'' \<notin> set s" "backslash \<notin> set s"
    using valid_id_no_separator by blast+
qed

theorem generated_doc_id_accepted_witness:
  "generateUniqueDocId example_env empty_world = Inr ''amber-apple-100''
   \<and> isValidDocId ''amber-apple-100''
   \<and> fst (docs_delete_draft example_env empty_world ''amber-apple-100'')
       \<noteq> Inr (''Invalid document ID format: '' @ ''amber-apple-100'')
   \<and> CHR ''/'' \<notin> set ''amber-apple-100''"
  using generated_doc_id_accepted [of example_env empty_world "''amber-apple-100''"
      example_env empty_world _ "''amber-apple-100''"]
    example_generated_id
  by simp

section \<open>Drafts start with frontmatter\<close>










lemma draft_path_not_registry_path:
  "getDocsBasePath c x = Inr docsBase \<Longrightarrow>
     getRegistryPath c x \<noteq> Inr (join (join docsBase docId) f)"
  by (auto simp: getDocsBasePath_def getRegistryPath_def join_def Let_def split: if_splits)


lemma generateUniqueDocId_ensure_dir:
  "generateUniqueDocId e (ensure_dir d w) = generateUniqueDocId e w"
  by (simp add: generateUniqueDocId_def readRegistry_def ensure_dir_def split: sum.splits)









section \<open>An identifier of the wrong format\<close>

lemma traversal_id_rejected: "\<not> isValidDocId ''../x''"
  using valid_id_no_separator [of "''../x''"] by auto

text \<open>
  C2, as stated, fails: a \<^verbatim>\<open>doc_id\<close> of the wrong format is answered with a returned
  text, by \<^verbatim>\<open>docs_compile\<close> and by \<^verbatim>\<open>docs_delete_draft\<close>; nothing is thrown.
\<close>

theorem invalid_id_returned_not_thrown:
  "fst (docs_compile example_env empty_world (example_compile_args\<lparr>doc_id := ''../x''\<rparr>))
     = Inr ''Invalid document ID format: ../x''
   \<and> fst (docs_delete_draft example_env empty_world ''../x'')
     = Inr ''Invalid document ID format: ../x''"
  using traversal_id_rejected by (simp add: docs_compile_def docs_delete_draft_def)

text \<open>
  C2, amended. For every \<^verbatim>\<open>docs_compile\<close> or \<^verbatim>\<open>docs_delete_draft\<close> call whose
  \<^verbatim>\<open>doc_id\<close> does not match the identifier format, the tool returns the text
  \<^verbatim>\<open>Invalid document ID format: \<close> followed by the identifier, and leaves the registry,
  the files, the cache and the process log as they were.
\<close>

theorem invalid_id_returned:
  "(\<not> isValidDocId (doc_id a) \<longrightarrow>
      docs_compile e w a = (Inr (''Invalid document ID format: '' @ doc_id a), w))
   \<and> (\<not> isValidDocId d \<longrightarrow>
      docs_delete_draft e w d = (Inr (''Invalid document ID format: '' @ d), w))"
  by (simp add: docs_compile_def docs_delete_draft_def)

theorem invalid_id_returned_witness:
  "\<not> isValidDocId ''../x''
   \<and> docs_compile example_env empty_world (example_compile_args\<lparr>doc_id := ''../x''\<rparr>)
       = (Inr ''Invalid document ID format: ../x'', empty_world)
   \<and> docs_delete_draft example_env empty_world ''../x''
       = (Inr ''Invalid document ID format: ../x'', empty_world)"
  using invalid_id_returned [of "example_compile_args\<lparr>doc_id := ''../x''\<rparr>" example_env
      empty_world "''../x''"] traversal_id_rejected
  by simp

section \<open>An unreadable registry file\<close>

lemma readRegistry_unreadable:
  "unreadable (registry_file w) \<Longrightarrow>
     readRegistry e w = readRegistry e (w\<lparr>registry_file := Json \<lparr>drafts = []\<rparr>\<rparr>)"
  by (auto simp: readRegistry_def unreadable_def split: sum.splits registry_file.splits)

lemma readRegistry_unreadable_value:
  "unreadable (registry_file w) \<Longrightarrow>
     readRegistry e w =
       (case getRegistryPath (cwd e) (plugin_ctx e) of
          Inl err \<Rightarrow> Inl err
        | Inr p \<Rightarrow> Inr \<lparr>drafts = []\<rparr>)"
  by (auto simp: readRegistry_def unreadable_def split: sum.splits registry_file.splits)

lemma registry_path_docs_path:
  "getRegistryPath c x = Inr p \<Longrightarrow> \<exists>b. getDocsBasePath c x = Inr b"
  by (auto simp: getRegistryPath_def getDocsBasePath_def Let_def split: if_splits)

lemma list_unreadable:
  assumes "unreadable (registry_file w)"
  shows "fst (docs_list_drafts e w) =
      (case getRegistryPath (cwd e) (plugin_ctx e) of
         Inl err \<Rightarrow> Inl err
       | Inr p \<Rightarrow> Inr ''No active drafts. Create one with docs_draft.'')"
  using assms
  by (simp add: docs_list_drafts_def readRegistry_unreadable_value split: sum.splits)

lemma compile_unreadable:
  assumes "unreadable (registry_file w)" "isValidDocId (doc_id a)"
  shows "docs_compile e w a =
      (case getRegistryPath (cwd e) (plugin_ctx e) of
         Inl err \<Rightarrow> (Inl err, w)
       | Inr p \<Rightarrow> (Inr (''Draft not found: '' @ doc_id a
                     @ ''. Use docs_list_drafts to see available drafts.''), w))"
  using assms
  by (simp add: docs_compile_def readRegistry_unreadable_value split: sum.splits)

lemma delete_unreadable:
  assumes "unreadable (registry_file w)" "isValidDocId d"
  shows "docs_delete_draft e w d =
      (case getRegistryPath (cwd e) (plugin_ctx e) of
         Inl err \<Rightarrow> (Inl err, w)
       | Inr p \<Rightarrow> (Inr (''Draft not found: '' @ d), w))"
  using assms
  by (simp add: docs_delete_draft_def readRegistry_unreadable_value split: sum.splits)


lemma existsSync_registry_file [simp]:
  "existsSync (w\<lparr>registry_file := x\<rparr>) p = existsSync w p"
  by (simp add: existsSync_def)

lemma ensure_dir_registry_file [simp]:
  "ensure_dir d (w\<lparr>registry_file := x\<rparr>) = (ensure_dir d w)\<lparr>registry_file := x\<rparr>"
  by (simp add: ensure_dir_def)

lemma mkdirSync_registry_file [simp]:
  "mkdirSync d (w\<lparr>registry_file := x\<rparr>) = (mkdirSync d w)\<lparr>registry_file := x\<rparr>"
  by (simp add: mkdirSync_def)

lemma writeFileSync_registry_file [simp]:
  "writeFileSync p t (w\<lparr>registry_file := x\<rparr>) = (writeFileSync p t w)\<lparr>registry_file := x\<rparr>"
  by (simp add: writeFileSync_def)

lemma registry_file_fs [simp]:
  "registry_file (ensure_dir d w) = registry_file w"
  "registry_file (mkdirSync d w) = registry_file w"
  "registry_file (writeFileSync p t w) = registry_file w"
  by (simp_all add: ensure_dir_def mkdirSync_def writeFileSync_def)

lemma initial_text_registry_file [simp]:
  "initial_text (w\<lparr>registry_file := x\<rparr>) a = initial_text w a"
  by (simp add: initial_text_def)

lemma readRegistry_cong:
  "registry_file w = registry_file v \<Longrightarrow> readRegistry e w = readRegistry e v"
  by (simp add: readRegistry_def split: sum.splits)

lemma writeRegistry_registry_file [simp]:
  "writeRegistry e r (w\<lparr>registry_file := x\<rparr>) = writeRegistry e r w"
  by (simp add: writeRegistry_def split: sum.splits)

lemma generateUniqueDocId_unreadable:
  "unreadable (registry_file w) \<Longrightarrow>
     generateUniqueDocId e w = generateUniqueDocId e (w\<lparr>registry_file := Json \<lparr>drafts = []\<rparr>\<rparr>)"
  using readRegistry_unreadable [of w e] by (simp add: generateUniqueDocId_def)

lemma draft_unreadable:
  assumes "unreadable (registry_file w)"
  shows "fst (docs_draft e w da) = fst (docs_draft e (w\<lparr>registry_file := Json \<lparr>drafts = []\<rparr>\<rparr>) da)"
proof -
  let ?w0 = "w\<lparr>registry_file := Json \<lparr>drafts = []\<rparr>\<rparr>"
  have g: "\<And>d. generateUniqueDocId e (ensure_dir d w)
      = generateUniqueDocId e ((ensure_dir d w)\<lparr>registry_file := Json \<lparr>drafts = []\<rparr>\<rparr>)"
    using assms by (intro generateUniqueDocId_unreadable) simp
  have r: "\<And>v. registry_file v = registry_file w \<Longrightarrow>
      readRegistry e v = readRegistry e (v\<lparr>registry_file := Json \<lparr>drafts = []\<rparr>\<rparr>)"
    using assms by (intro readRegistry_unreadable) simp
  show ?thesis
    by (simp add: docs_draft_def Let_def g [symmetric] r [symmetric]
        split: sum.splits)
qed

lemma draft_unreadable_registry:
  assumes "unreadable (registry_file w)" "docs_draft e w da = (Inr msg, w')"
  shows "\<exists>docId info. registry_file w' = Json \<lparr>drafts = [(docId, info)]\<rparr>"
  using assms
  by (auto simp: docs_draft_def Let_def readRegistry_def writeRegistry_def unreadable_def
      split: sum.splits registry_file.splits)

text \<open>
  C3. When the registry file is absent or holds text that is not valid JSON,
  \<^verbatim>\<open>readRegistry\<close> returns the empty registry (it fails only when the project directory
  cannot be determined, whatever the file holds), and the four registry tools go on as
  with no drafts: the listing reports no active drafts, compile and delete report the
  draft as not found and change nothing, and \<^verbatim>\<open>docs_draft\<close> answers exactly as it
  would on a file holding the empty registry and, when it succeeds, leaves a registry
  with the one new draft.
\<close>

theorem unreadable_registry_tolerated:
  assumes "registry_file w = Absent \<or> (\<exists>content. registry_file w = Malformed content)"
  shows "readRegistry e w =
           (case getRegistryPath (cwd e) (plugin_ctx e) of
              Inl err \<Rightarrow> Inl err
            | Inr p \<Rightarrow> Inr \<lparr>drafts = []\<rparr>)
    \<and> fst (docs_list_drafts e w) =
           (case getRegistryPath (cwd e) (plugin_ctx e) of
              Inl err \<Rightarrow> Inl err
            | Inr p \<Rightarrow> Inr ''No active drafts. Create one with docs_draft.'')
    \<and> (isValidDocId (doc_id a) \<longrightarrow>
         docs_compile e w a =
           (case getRegistryPath (cwd e) (plugin_ctx e) of
              Inl err \<Rightarrow> (Inl err, w)
            | Inr p \<Rightarrow> (Inr (''Draft not found: '' @ doc_id a
                          @ ''. Use docs_list_drafts to see available drafts.''), w)))
    \<and> (isValidDocId d \<longrightarrow>
         docs_delete_draft e w d =
           (case getRegistryPath (cwd e) (plugin_ctx e) of
              Inl err \<Rightarrow> (Inl err, w)
            | Inr p \<Rightarrow> (Inr (''Draft not found: '' @ d), w)))
    \<and> fst (docs_draft e w da) = fst (docs_draft e (w\<lparr>registry_file := Json \<lparr>drafts = []\<rparr>\<rparr>) da)
    \<and> (\<forall>msg w'. docs_draft e w da = (Inr msg, w') \<longrightarrow>
          (\<exists>docId info. registry_file w' = Json \<lparr>drafts = [(docId, info)]\<rparr>))"
proof -
  have u: "unreadable (registry_file w)"
    using assms by (auto simp: unreadable_def)
  show ?thesis
    using readRegistry_unreadable_value [OF u] list_unreadable [OF u]
      compile_unreadable [OF u] delete_unreadable [OF u] draft_unreadable [OF u]
      draft_unreadable_registry [OF u]
    by blast
qed

lemma example_paths:
  "getRegistryPath (cwd example_env) (plugin_ctx example_env)
     = Inr ''/proj/.opencode/docs-registry.json''"
  "getDocsBasePath (cwd example_env) (plugin_ctx example_env) = Inr ''/proj/.opencode/docs''"
  by (simp_all add: getRegistryPath_def getDocsBasePath_def project_base_def example_env_def
      example_ctx_def truthy_def or_empty_def join_def)

lemma generated_valid: "generateUniqueDocId e w = Inr docId \<Longrightarrow> isValidDocId docId"
  by (auto simp: generateUniqueDocId_def unique_id_valid split: sum.splits)

lemma example_id_valid: "isValidDocId ''amber-apple-100''"
  by (rule generated_valid [OF example_generated_id])

theorem unreadable_registry_tolerated_witness:
  "registry_file (empty_world\<lparr>registry_file := Malformed ''{oops''\<rparr>) = Malformed ''{oops''
   \<and> readRegistry example_env (empty_world\<lparr>registry_file := Malformed ''{oops''\<rparr>)
       = Inr \<lparr>drafts = []\<rparr>
   \<and> fst (docs_list_drafts example_env (empty_world\<lparr>registry_file := Malformed ''{oops''\<rparr>))
       = Inr ''No active drafts. Create one with docs_draft.''
   \<and> fst (docs_compile example_env (empty_world\<lparr>registry_file := Malformed ''{oops''\<rparr>)
            example_compile_args)
       = Inr ''Draft not found: amber-apple-100. Use docs_list_drafts to see available drafts.''
   \<and> fst (docs_delete_draft example_env (empty_world\<lparr>registry_file := Malformed ''{oops''\<rparr>)
            ''amber-apple-100'')
       = Inr ''Draft not found: amber-apple-100''"
  using unreadable_registry_tolerated [of "empty_world\<lparr>registry_file := Malformed ''{oops''\<rparr>"
      example_env example_compile_args "''amber-apple-100''"]
    example_paths example_id_valid
  by (simp add: example_compile_args_def)

section \<open>What the tools do to the registry\<close>

lemma readRegistry_stored: "readRegistry e w = Inr r \<Longrightarrow> r = stored_registry w"
  by (auto simp: readRegistry_def stored_registry_def split: sum.splits registry_file.splits)

lemma stored_registry_written [simp]:
  "stored_registry (w\<lparr>registry_file := Json r\<rparr>) = r"
  by (simp add: stored_registry_def)

lemma stored_registry_fs [simp]:
  "stored_registry (ensure_dir d w) = stored_registry w"
  "stored_registry (mkdirSync d w) = stored_registry w"
  "stored_registry (writeFileSync p t w) = stored_registry w"
  by (simp_all add: stored_registry_def)

lemma id_loop_fresh:
  "id_loop ds rnd n = (docId, k) \<Longrightarrow> k < 100 \<Longrightarrow> map_of ds docId = None"
proof (induction ds rnd n rule: id_loop.induct)
  case (1 ds rnd attempts)
  show ?case
  proof (cases "map_of ds (generateDocId (rnd attempts)) \<noteq> None \<and> Suc attempts < 100")
    case True
    then have "id_loop ds rnd attempts = id_loop ds rnd (Suc attempts)"
      by (subst id_loop.simps) (simp add: Let_def)
    then show ?thesis using 1 True by simp
  next
    case False
    then have "id_loop ds rnd attempts = (generateDocId (rnd attempts), Suc attempts)"
      by (subst id_loop.simps) (auto simp add: Let_def)
    then show ?thesis using 1(2,3) False by auto
  qed
qed

lemma id_loop_exhaust:
  "\<forall>k. map_of ds (generateDocId (rnd k)) \<noteq> None \<Longrightarrow> n < 100 \<Longrightarrow>
     id_loop ds rnd n = (generateDocId (rnd 99), 100)"
proof (induction ds rnd n rule: id_loop.induct)
  case (1 ds rnd attempts)
  show ?case
  proof (cases "Suc attempts < 100")
    case True
    then have "id_loop ds rnd attempts = id_loop ds rnd (Suc attempts)"
      using 1(2) by (subst id_loop.simps) (simp add: Let_def)
    then show ?thesis using 1 True by simp
  next
    case False
    then have a: "attempts = 99" using 1(3) by simp
    have "id_loop ds rnd attempts = (generateDocId (rnd attempts), Suc attempts)"
      using False by (subst id_loop.simps) (auto simp add: Let_def)
    then show ?thesis using a by simp
  qed
qed

lemma draft_registry_effect:
  assumes "docs_draft e w da = (Inr msg, w')"
  shows "\<exists>docId info.
      generateUniqueDocId e w = Inr docId
      \<and> entry_of w' = (entry_of w)(docId \<mapsto> info)
      \<and> status info = StatusDraft \<and> title info = arg_title da \<and> preset info = arg_preset da
      \<and> (snd (id_loop (drafts (stored_registry w)) (random e) 0) < 100 \<longrightarrow> entry_of w docId = None)"
proof -
  from assms obtain docsBase where b: "getDocsBasePath (cwd e) (plugin_ctx e) = Inr docsBase"
    by (auto simp: docs_draft_def split: sum.splits)
  from assms b obtain docId where i: "generateUniqueDocId e (ensure_dir docsBase w) = Inr docId"
    by (auto simp: docs_draft_def Let_def split: sum.splits)
  then have i': "generateUniqueDocId e w = Inr docId"
    by (simp add: generateUniqueDocId_ensure_dir)
  then obtain r where r: "readRegistry e w = Inr r"
      "docId = unique_id (drafts r) (random e) (now_ms e)"
    by (auto simp: generateUniqueDocId_def split: sum.splits)
  have rs: "r = stored_registry w" using r(1) by (rule readRegistry_stored)
  define info where "info = \<lparr>title = arg_title da, preset = arg_preset da,
      created_at = clock e 1, last_modified = clock e 2,
      source_markdown = arg_source_markdown da, status = StatusDraft\<rparr>"
  have rr: "\<And>v. registry_file v = registry_file w \<Longrightarrow> readRegistry e v = Inr r"
    using r(1) readRegistry_cong by metis
  have "stored_registry w' = r\<lparr>drafts := AList.update docId info (drafts r)\<rparr>"
    using assms b i
    by (auto simp: docs_draft_def Let_def info_def rr writeRegistry_def
        split: sum.splits)
  then have "entry_of w' = (entry_of w)(docId \<mapsto> info)"
    by (simp add: entry_of_def rs update_conv')
  moreover have "snd (id_loop (drafts (stored_registry w)) (random e) 0) < 100
      \<longrightarrow> entry_of w docId = None"
  proof
    assume lt: "snd (id_loop (drafts (stored_registry w)) (random e) 0) < 100"
    obtain d k where dk: "id_loop (drafts (stored_registry w)) (random e) 0 = (d, k)"
      by (cases "id_loop (drafts (stored_registry w)) (random e) 0")
    then have "map_of (drafts (stored_registry w)) d = None"
      using lt id_loop_fresh by fastforce
    moreover have "docId = d"
      using r(2) dk lt by (simp add: unique_id_def rs)
    ultimately show "entry_of w docId = None" by (simp add: entry_of_def)
  qed
  ultimately show ?thesis using i' by (auto simp: info_def)
qed

lemma registry_file_procs [simp]:
  "registry_file (log_spawn cmd w) = registry_file w"
  "registry_file (rm_f f w) = registry_file w"
  "registry_file (rm_rf d w) = registry_file w"
  "registry_file (mkdir_p d w) = registry_file w"
  by (simp_all add: log_spawn_def rm_f_def rm_rf_def mkdir_p_def mkdirSync_def)

lemma execute_failure_keeps_registry:
  "fst (execute e b dir w) = Failure reason \<Longrightarrow>
     registry_file (snd (execute e b dir w)) = registry_file w"
  by (auto simp: execute_def Let_def exec_outcome_def split: if_splits)

lemma execute_elsewhere_keeps_registry:
  "getRegistryPath (cwd e) (plugin_ctx e) \<noteq> Inr (outputFile b) \<Longrightarrow>
     registry_file (snd (execute e b dir w)) = registry_file w"
  by (simp add: execute_def Let_def process_writes_def)

lemma execute_overwrites_registry:
  "exitCode (spawn_result e (build b) dir) = 0 \<Longrightarrow>
   getRegistryPath (cwd e) (plugin_ctx e) = Inr (outputFile b) \<Longrightarrow>
     registry_file (snd (execute e b dir w)) =
       (case parse_registry e (output_text e (build b) dir) of
          None \<Rightarrow> Malformed (output_text e (build b) dir)
        | Some r \<Rightarrow> Json r)"
  by (auto simp: execute_def Let_def process_writes_def getRegistryPath_def join_def
      split: if_splits)

lemma authors_table_registry_file:
  "authors_table e a dir b w = Inr (b', f, w') \<Longrightarrow> registry_file w' = registry_file w"
  by (auto simp: authors_table_def Let_def split: if_splits sum.splits)

text \<open>The methods of the builder leave its output file as \<^verbatim>\<open>output(path)\<close> set it.\<close>

lemma outputFile_push_args [simp]: "outputFile (push_args xs b) = outputFile b"
  by (simp add: push_args_def)

lemma outputFile_methods [simp]:
  "outputFile (set_input p b) = outputFile b"
  "outputFile (set_output p b) = p"
  "outputFile (b_from fmt b) = outputFile b"
  "outputFile (b_template p b) = outputFile b"
  "outputFile (b_pdfEngine en b) = outputFile b"
  "outputFile (b_variable n v b) = outputFile b"
  "outputFile (b_bibliography p b) = outputFile b"
  "outputFile (b_csl p b) = outputFile b"
  "outputFile (b_toc b) = outputFile b"
  "outputFile (b_numberSections b) = outputFile b"
  "outputFile (b_listings b) = outputFile b"
  "outputFile (b_metadataFile p b) = outputFile b"
  "outputFile (b_rawArgs xs b) = outputFile b"
  "outputFile (b_resourcePath p b) = outputFile b"
  by (simp_all add: set_input_def set_output_def b_from_def b_template_def b_pdfEngine_def
      b_variable_def b_bibliography_def b_csl_def b_toc_def b_numberSections_def
      b_listings_def b_metadataFile_def b_rawArgs_def b_resourcePath_def)

lemma outputFile_on_cond [simp]:
  "(\<And>x. outputFile (f x) = outputFile x) \<Longrightarrow> outputFile (on_cond c f b) = outputFile b"
  by (simp add: on_cond_def)

lemma outputFile_b_variables [simp]: "outputFile (b_variables vars b) = outputFile b"
proof -
  have "outputFile (fold (\<lambda>kv. b_variable (fst kv) (snd kv)) vars b) = outputFile b"
    by (induction vars arbitrary: b) simp_all
  then show ?thesis by (simp add: b_variables_def)
qed

lemma outputFile_opt_variable [simp]: "outputFile (opt_variable n v b) = outputFile b"
  by (simp add: opt_variable_def)

lemma outputFile_apply_style [simp]: "outputFile (apply_style st b) = outputFile b"
  by (simp add: apply_style_def Let_def split: option.splits)

lemma outputFile_applyPreset [simp]: "outputFile (applyPreset p b) = outputFile b"
  by (simp add: applyPreset_def Let_def split: option.splits)

lemma outputFile_applyMetadata [simp]: "outputFile (applyMetadata m b) = outputFile b"
  by (simp add: applyMetadata_def)

lemma outputFile_logo_variables [simp]: "outputFile (logo_variables d lg b) = outputFile b"
  by (simp add: logo_variables_def)

lemma outputFile_compile_builder:
  "outputFile (compile_builder e a p draftPath outputPath) = outputPath"
  by (simp add: compile_builder_def Let_def)

lemma outputFile_authors_table:
  "authors_table e a dir b w = Inr (b', f, w') \<Longrightarrow> outputFile b' = outputFile b"
  by (auto simp: authors_table_def Let_def split: if_splits sum.splits)

text \<open>After the registry has been written, \<^verbatim>\<open>docs_compile\<close> changes the registry file
  in one case only: the conversion succeeds and its output file is the registry file.\<close>

lemma compile_draft_end:
  "registry_file (snd (compile_draft e w a info dir dp)) = registry_file w
   \<or> (\<exists>b v. outputFile b =
                 (if truthy (output_path a) then or_empty (output_path a)
                  else join dir (doc_id a @ ''.pdf''))
          \<and> registry_file v = registry_file w
          \<and> registry_file (snd (compile_draft e w a info dir dp))
              = registry_file (snd (execute e b None v))
          \<and> (\<forall>err. fst (compile_draft e w a info dir dp) = Inl err \<longrightarrow>
                (\<exists>reason. fst (execute e b None v) = Failure reason)))"
proof -
  let ?out = "if truthy (output_path a) then or_empty (output_path a)
              else join dir (doc_id a @ ''.pdf'')"
  obtain res c1 where
    lp: "loadPreset (stack_depth e) (resolver e) (cache w) (preset info) (c_logo a) = (res, c1)"
    by (cases "loadPreset (stack_depth e) (resolver e) (cache w) (preset info) (c_logo a)")
  show ?thesis
  proof (cases res)
    case (Inl x)
    then show ?thesis using lp by (simp add: compile_draft_def Let_def)
  next
    case p: (Inr p)
    show ?thesis
    proof (cases "template_missing p")
      case True
      then show ?thesis using lp p by (simp add: compile_draft_def Let_def)
    next
      case False
      show ?thesis
      proof (cases "authors_table e a dir (compile_builder e a p dp ?out) (w\<lparr>cache := c1\<rparr>)")
        case (Inl x)
        then show ?thesis using lp p False by (simp add: compile_draft_def Let_def)
      next
        case (Inr t)
        obtain b mf w2 where t: "t = (b, mf, w2)" by (cases t)
        have at: "authors_table e a dir (compile_builder e a p dp ?out) (w\<lparr>cache := c1\<rparr>)
            = Inr (b, mf, w2)"
          using Inr t by simp
        have r2: "registry_file w2 = registry_file w"
          using authors_table_registry_file [OF at] by simp
        have ob: "outputFile b = ?out"
          using outputFile_authors_table [OF at] by (simp add: outputFile_compile_builder)
        obtain result w3 where ex: "execute e b None w2 = (result, w3)"
          by (cases "execute e b None w2")
        have "registry_file (snd (compile_draft e w a info dir dp)) = registry_file w3"
          using lp p False at ex
          by (simp add: compile_draft_def Let_def split: option.splits exec_result.splits)
        moreover have "\<forall>err. fst (compile_draft e w a info dir dp) = Inl err \<longrightarrow>
            (\<exists>reason. result = Failure reason)"
          using lp p False at ex
          by (simp add: compile_draft_def Let_def split: option.splits exec_result.splits)
        ultimately show ?thesis using r2 ob ex by (intro disjI2 exI [of _ b] exI [of _ w2]) simp
      qed
    qed
  qed
qed

lemma compile_draft_error_keeps_registry:
  assumes "fst (compile_draft e w a info dir dp) = Inl err"
  shows "registry_file (snd (compile_draft e w a info dir dp)) = registry_file w"
  using compile_draft_end [of e w a info dir dp] assms execute_failure_keeps_registry
  by fastforce

lemma compile_draft_elsewhere_keeps_registry:
  assumes "getRegistryPath (cwd e) (plugin_ctx e) \<noteq>
      Inr (if truthy (output_path a) then or_empty (output_path a)
           else join dir (doc_id a @ ''.pdf''))"
  shows "registry_file (snd (compile_draft e w a info dir dp)) = registry_file w"
  using compile_draft_end [of e w a info dir dp] assms execute_elsewhere_keeps_registry
  by fastforce

lemma docs_path_registry_path:
  "getDocsBasePath c x = Inr b \<Longrightarrow> \<exists>p. getRegistryPath c x = Inr p"
  by (auto simp: getRegistryPath_def getDocsBasePath_def Let_def split: if_splits)

lemma compile_writes_first:
  assumes "isValidDocId (doc_id a)"
    and "readRegistry e w = Inr r"
    and "map_of (drafts r) (doc_id a) = Some info"
    and "getDocsBasePath (cwd e) (plugin_ctx e) = Inr docsBase"
    and "existsSync w (join (join docsBase (doc_id a)) ''draft.md'')"
  shows "\<exists>w1. docs_compile e w a =
            compile_draft e w1 a (info\<lparr>last_modified := clock e 0, status := StatusCompiled\<rparr>)
              (join docsBase (doc_id a)) (join (join docsBase (doc_id a)) ''draft.md'')
          \<and> registry_file w1 =
              Json (r\<lparr>drafts := AList.update (doc_id a)
                      (info\<lparr>last_modified := clock e 0, status := StatusCompiled\<rparr>) (drafts r)\<rparr>)
          \<and> files w1 = files w \<and> cache w1 = cache w \<and> spawned w1 = spawned w"
proof -
  obtain p where p: "getRegistryPath (cwd e) (plugin_ctx e) = Inr p"
    using assms(4) docs_path_registry_path by blast
  let ?r' = "r\<lparr>drafts := AList.update (doc_id a)
      (info\<lparr>last_modified := clock e 0, status := StatusCompiled\<rparr>) (drafts r)\<rparr>"
  let ?w1 = "(ensure_dir (parent_dir p) w)\<lparr>registry_file := Json ?r'\<rparr>"
  have "docs_compile e w a =
      compile_draft e ?w1 a (info\<lparr>last_modified := clock e 0, status := StatusCompiled\<rparr>)
        (join docsBase (doc_id a)) (join (join docsBase (doc_id a)) ''draft.md'')"
    using assms p by (simp add: docs_compile_def Let_def writeRegistry_def)
  moreover have "registry_file ?w1 = Json ?r'" by simp
  moreover have "files ?w1 = files w \<and> cache ?w1 = cache w \<and> spawned ?w1 = spawned w"
    by (simp add: ensure_dir_def)
  ultimately show ?thesis by blast
qed

lemma example_first_id: "generateDocId ((\<lambda>k. (0, 0, 0)) j) = ''amber-apple-100''"
  by (simp add: generateDocId_def ADJECTIVES_def NOUNS_def show_nat.simps digit_chars_def Let_def)

lemma collide_generated_id:
  "generateUniqueDocId example_env collide_world = Inr ''amber-apple-100-1767323045000''"
proof -
  let ?ds = "[(''amber-apple-100'', old_info), (''amber-apple-100-1767323045000'', old_info)]"
  have "\<forall>k. map_of ?ds (generateDocId ((\<lambda>k. (0, 0, 0)) k)) \<noteq> None"
    by (simp add: example_first_id)
  then have "id_loop ?ds (\<lambda>k. (0, 0, 0)) 0 = (generateDocId ((\<lambda>k. (0, 0, 0)) 99), 100)"
    by (rule id_loop_exhaust) simp
  then have "unique_id ?ds (\<lambda>k. (0, 0, 0)) 1767323045000 = ''amber-apple-100-1767323045000''"
    by (simp add: unique_id_def example_first_id show_nat.simps digit_chars_def)
  then show ?thesis
    by (simp add: generateUniqueDocId_def readRegistry_def example_paths collide_world_def
        empty_world_def example_env_def [THEN arg_cong, of random]
        example_env_def [THEN arg_cong, of now_ms])
qed

lemma collide_draft_runs:
  "\<exists>msg w'. docs_draft example_env collide_world example_draft_args = (Inr msg, w')
     \<and> registry_file w' =
         Json \<lparr>drafts = [(''amber-apple-100'', old_info),
                     (''amber-apple-100-1767323045000'',
                      \<lparr>title = ''Notes'', preset = ''eisvogel'',
                       created_at = ''2026-01-02T03:04:05.000Z'',
                       last_modified = ''2026-01-02T03:04:05.000Z'',
                       source_markdown = None, status = StatusDraft\<rparr>)]\<rparr>"
proof -
  have g: "generateUniqueDocId example_env (ensure_dir ''/proj/.opencode/docs'' collide_world)
      = Inr ''amber-apple-100-1767323045000''"
    by (simp add: generateUniqueDocId_ensure_dir collide_generated_id)
  have r: "\<And>v. registry_file v = registry_file collide_world \<Longrightarrow>
      readRegistry example_env v = Inr \<lparr>drafts = [(''amber-apple-100'', old_info),
                       (''amber-apple-100-1767323045000'', old_info)]\<rparr>"
    by (simp add: readRegistry_def example_paths collide_world_def)
  show ?thesis
    by (simp add: docs_draft_def example_paths g r Let_def initial_text_def example_draft_args_def
        truthy_def or_empty_def writeRegistry_def
        example_env_def [THEN arg_cong, of clock])
qed

text \<open>
  C5 fails in the code at \<^verbatim>\<open>docs_draft\<close>. \<^verbatim>\<open>generateUniqueDocId\<close> looks an
  identifier up in the registry only inside its loop of at most a hundred draws; when
  all of them are taken it returns the next draw with the clock's milliseconds
  appended, and that identifier is not looked up. Here the registry holds two drafts,
  under \<^verbatim>\<open>amber-apple-100\<close> and under \<^verbatim>\<open>amber-apple-100-1767323045000\<close>, every draw
  gives \<^verbatim>\<open>amber-apple-100\<close> and the clock stands at 1767323045000 milliseconds. The
  identifier returned as unique is the second draft's, and \<^verbatim>\<open>docs_draft\<close> succeeds:
  the registry has the same two keys afterwards, no entry has been added, and the
  second draft's entry has been replaced by the new draft's.
\<close>

theorem fallback_id_replaces_entry:
  "registry_file collide_world =
     Json \<lparr>drafts = [(''amber-apple-100'', old_info),
                      (''amber-apple-100-1767323045000'', old_info)]\<rparr>
   \<and> generateUniqueDocId example_env collide_world = Inr ''amber-apple-100-1767323045000''
   \<and> \<not> isl (fst (docs_draft example_env collide_world example_draft_args))
   \<and> registry_file (snd (docs_draft example_env collide_world example_draft_args)) =
       Json \<lparr>drafts = [(''amber-apple-100'', old_info),
                        (''amber-apple-100-1767323045000'',
                         \<lparr>title = ''Notes'', preset = ''eisvogel'',
                          created_at = ''2026-01-02T03:04:05.000Z'',
                          last_modified = ''2026-01-02T03:04:05.000Z'',
                          source_markdown = None, status = StatusDraft\<rparr>)]\<rparr>
   \<and> old_info \<noteq> \<lparr>title = ''Notes'', preset = ''eisvogel'',
                     created_at = ''2026-01-02T03:04:05.000Z'',
                     last_modified = ''2026-01-02T03:04:05.000Z'',
                     source_markdown = None, status = StatusDraft\<rparr>"
proof -
  obtain msg w' where r: "docs_draft example_env collide_world example_draft_args = (Inr msg, w')"
    "registry_file w' =
         Json \<lparr>drafts = [(''amber-apple-100'', old_info),
                     (''amber-apple-100-1767323045000'',
                      \<lparr>title = ''Notes'', preset = ''eisvogel'',
                       created_at = ''2026-01-02T03:04:05.000Z'',
                       last_modified = ''2026-01-02T03:04:05.000Z'',
                       source_markdown = None, status = StatusDraft\<rparr>)]\<rparr>"
    using collide_draft_runs by blast
  have c: "registry_file collide_world =
      Json \<lparr>drafts = [(''amber-apple-100'', old_info), (''amber-apple-100-1767323045000'', old_info)]\<rparr>"
    by (simp add: collide_world_def empty_world_def)
  have d: "old_info \<noteq> \<lparr>title = ''Notes'', preset = ''eisvogel'',
                     created_at = ''2026-01-02T03:04:05.000Z'',
                     last_modified = ''2026-01-02T03:04:05.000Z'',
                     source_markdown = None, status = StatusDraft\<rparr>"
    by (simp add: old_info_def)
  show ?thesis
    using c collide_generated_id d by (simp add: r)
qed

section \<open>Compiling: the missing template and the registry write\<close>

lemma example_stack: "stack_depth example_env = Suc 7" "resolver example_env = example_resolver"
  by (simp_all add: example_env_def)

lemma example_eisvogel_loaded:
  "\<exists>p c. loadPreset (Suc n) example_resolver Map.empty ''eisvogel'' None = (Inr p, c)
     \<and> template p = Some (no_template\<lparr>path := ''eisvogel.latex''\<rparr>)
     \<and> resolved_template_path p = None"
  by (simp add: example_resolver_def locatePreset_def get_property_def
      BUILTIN_PRESETS_def or_empty_def truthy_def no_preset_def unresolved_def
      PresetConfig.extend_def resolve_paths_def resolve_template_def resolve_csl_def
      resolve_logo_def resolveTemplate_def scope_search_def no_scopes_def no_template_def Let_def)


lemma template_missing_iff:
  "template_missing p \<longleftrightarrow>
     (\<exists>t. template p = Some t \<and> path t \<noteq> []) \<and> \<not> truthy (resolved_template_path p)"
  by (auto simp: template_missing_def split: option.splits)

lemma template_error_text:
  "template p = Some t \<Longrightarrow>
     template_error p =
       Error (''Template '' @ [squote] @ path t @ [squote]
              @ '' not found. Use docs_templates_install.'')"
  by (simp add: template_error_def)

lemma create_template_missing:
  assumes "loadPreset (stack_depth e) (resolver e) (cache w) (cr_preset ca) (cr_logo ca) = (Inr p, c1)"
    and "template p = Some t" "path t \<noteq> []" "\<not> truthy (resolved_template_path p)"
  shows "docs_create e w ca =
      (Inl (Error (''Template '' @ [squote] @ path t @ [squote]
                   @ '' not found. Use docs_templates_install.'')), w\<lparr>cache := c1\<rparr>)"
    and "docs_create_legacy e w ca =
      (Inl (Error (''Template '' @ [squote] @ path t @ [squote]
                   @ '' not found. Use docs_templates_install.'')), w\<lparr>cache := c1\<rparr>)"
  using assms
  by (simp_all add: docs_create_def docs_create_legacy_def template_missing_iff
      template_error_text)

lemma compile_draft_template_missing:
  assumes "loadPreset (stack_depth e) (resolver e) (cache w1) (preset info) (c_logo a) = (Inr p, c1)"
    and "template p = Some t" "path t \<noteq> []" "\<not> truthy (resolved_template_path p)"
  shows "compile_draft e w1 a info dir dp =
      (Inl (Error (''Template '' @ [squote] @ path t @ [squote]
                   @ '' not found. Use docs_templates_install.'')), w1\<lparr>cache := c1\<rparr>)"
  using assms
  by (simp add: compile_draft_def Let_def template_missing_iff template_error_text)

lemma compile_template_missing:
  assumes "isValidDocId (doc_id a)"
    and "readRegistry e w = Inr r"
    and "map_of (drafts r) (doc_id a) = Some info"
    and "getDocsBasePath (cwd e) (plugin_ctx e) = Inr docsBase"
    and "existsSync w (join (join docsBase (doc_id a)) ''draft.md'')"
    and "loadPreset (stack_depth e) (resolver e) (cache w) (preset info) (c_logo a) = (Inr p, c1)"
    and "template p = Some t" "path t \<noteq> []" "\<not> truthy (resolved_template_path p)"
  shows "fst (docs_compile e w a) =
      Inl (Error (''Template '' @ [squote] @ path t @ [squote]
                  @ '' not found. Use docs_templates_install.''))
    \<and> spawned (snd (docs_compile e w a)) = spawned w"
proof -
  let ?info = "info\<lparr>last_modified := clock e 0, status := StatusCompiled\<rparr>"
  from compile_writes_first [OF assms(1-5)] obtain w1 where
    w1: "docs_compile e w a =
            compile_draft e w1 a ?info
              (join docsBase (doc_id a)) (join (join docsBase (doc_id a)) ''draft.md'')"
      "cache w1 = cache w" "spawned w1 = spawned w"
    by blast
  have "loadPreset (stack_depth e) (resolver e) (cache w1) (preset ?info) (c_logo a) = (Inr p, c1)"
    using assms(6) w1(2) by simp
  from compile_draft_template_missing [OF this assms(7-9)] show ?thesis
    using w1 by simp
qed

text \<open>
  C7. Whenever the preset that \<^verbatim>\<open>docs_create\<close> (in either plugin file) or
  \<^verbatim>\<open>docs_compile\<close> loads declares a template with a non-empty path and carries no
  resolved template path, the tool throws the error whose text names that path
  (\<^verbatim>\<open>Template '...' not found. Use docs_templates_install.\<close>), and no process has
  been started: for \<^verbatim>\<open>docs_create\<close> the world is as before but for the cache, for
  \<^verbatim>\<open>docs_compile\<close> the process log is as before.
\<close>

theorem missing_template_thrown:
  "(loadPreset (stack_depth e) (resolver e) (cache w) (cr_preset ca) (cr_logo ca) = (Inr p, c1)
      \<and> template p = Some t \<and> path t \<noteq> [] \<and> \<not> truthy (resolved_template_path p)
    \<longrightarrow> docs_create e w ca =
          (Inl (Error (''Template '' @ [squote] @ path t @ [squote]
                       @ '' not found. Use docs_templates_install.'')), w\<lparr>cache := c1\<rparr>)
        \<and> docs_create_legacy e w ca =
          (Inl (Error (''Template '' @ [squote] @ path t @ [squote]
                       @ '' not found. Use docs_templates_install.'')), w\<lparr>cache := c1\<rparr>)
        \<and> spawned (w\<lparr>cache := c1\<rparr>) = spawned w)
   \<and> (isValidDocId (doc_id a) \<and> readRegistry e w = Inr r
        \<and> map_of (drafts r) (doc_id a) = Some info
        \<and> getDocsBasePath (cwd e) (plugin_ctx e) = Inr docsBase
        \<and> existsSync w (join (join docsBase (doc_id a)) ''draft.md'')
        \<and> loadPreset (stack_depth e) (resolver e) (cache w) (preset info) (c_logo a) = (Inr p', c1')
        \<and> template p' = Some t' \<and> path t' \<noteq> [] \<and> \<not> truthy (resolved_template_path p')
    \<longrightarrow> fst (docs_compile e w a) =
          Inl (Error (''Template '' @ [squote] @ path t' @ [squote]
                      @ '' not found. Use docs_templates_install.''))
        \<and> spawned (snd (docs_compile e w a)) = spawned w)"
  using create_template_missing [of e w ca p c1 t]
    compile_template_missing [of a e w r info docsBase p' c1' t']
  by simp

lemma drafted_facts:
  "readRegistry example_env drafted_world = Inr \<lparr>drafts = [(''amber-apple-100'', draft_entry)]\<rparr>"
  "existsSync drafted_world (join (join ''/proj/.opencode/docs'' ''amber-apple-100'') ''draft.md'')"
  "cache drafted_world = Map.empty" "spawned drafted_world = []"
  by (simp_all add: readRegistry_def example_paths drafted_world_def empty_world_def
      existsSync_def join_def)

theorem missing_template_thrown_witness:
  "fst (docs_create example_env empty_world example_create_args) =
     Inl (Error (''Template '' @ [squote] @ ''eisvogel.latex'' @ [squote]
                 @ '' not found. Use docs_templates_install.''))
   \<and> spawned (snd (docs_create example_env empty_world example_create_args)) = []
   \<and> fst (docs_compile example_env drafted_world example_compile_args) =
     Inl (Error (''Template '' @ [squote] @ ''eisvogel.latex'' @ [squote]
                 @ '' not found. Use docs_templates_install.''))
   \<and> spawned (snd (docs_compile example_env drafted_world example_compile_args)) = []"
proof -
  obtain p c where l: "loadPreset (Suc 7) example_resolver Map.empty ''eisvogel'' None = (Inr p, c)"
      "template p = Some (no_template\<lparr>path := ''eisvogel.latex''\<rparr>)"
      "resolved_template_path p = None"
    using example_eisvogel_loaded by blast
  have l1: "loadPreset (stack_depth example_env) (resolver example_env) (cache empty_world)
      (cr_preset example_create_args) (cr_logo example_create_args) = (Inr p, c)"
    using l(1) by (simp add: example_stack empty_world_def example_create_args_def)
  have l2: "loadPreset (stack_depth example_env) (resolver example_env) (cache drafted_world)
      (preset draft_entry) (c_logo example_compile_args) = (Inr p, c)"
    using l(1) by (simp add: example_stack drafted_facts draft_entry_def example_compile_args_def)
  have t: "path (no_template\<lparr>path := ''eisvogel.latex''\<rparr>) = ''eisvogel.latex''"
    by (simp add: no_template_def)
  have v: "isValidDocId (doc_id example_compile_args)"
    using example_id_valid by (simp add: example_compile_args_def)
  have m: "map_of (drafts \<lparr>drafts = [(''amber-apple-100'', draft_entry)]\<rparr>)
      (doc_id example_compile_args) = Some draft_entry"
    by (simp add: example_compile_args_def)
  have x: "existsSync drafted_world
      (join (join ''/proj/.opencode/docs'' (doc_id example_compile_args)) ''draft.md'')"
    using drafted_facts(2) by (simp add: example_compile_args_def)
  from missing_template_thrown [of example_env empty_world example_create_args p c
      "no_template\<lparr>path := ''eisvogel.latex''\<rparr>"] l1 l(2,3) t
  have a: "fst (docs_create example_env empty_world example_create_args) =
     Inl (Error (''Template '' @ [squote] @ ''eisvogel.latex'' @ [squote]
                 @ '' not found. Use docs_templates_install.''))
   \<and> spawned (snd (docs_create example_env empty_world example_create_args)) = []"
    by (simp add: truthy_def empty_world_def)
  from compile_template_missing [OF v drafted_facts(1) m example_paths(2) x l2 l(2)] l(3) t
  have b: "fst (docs_compile example_env drafted_world example_compile_args) =
     Inl (Error (''Template '' @ [squote] @ ''eisvogel.latex'' @ [squote]
                 @ '' not found. Use docs_templates_install.''))
   \<and> spawned (snd (docs_compile example_env drafted_world example_compile_args)) = []"
    by (simp add: truthy_def drafted_facts)
  show ?thesis using a b by simp
qed

text \<open>
  C8. Once \<^verbatim>\<open>docs_compile\<close> has found the draft (valid identifier, entry in the
  registry, draft file on disk), it continues from a world whose registry file already
  holds the entry with \<^verbatim>\<open>last_modified\<close> set to the clock reading and \<^verbatim>\<open>status\<close> set to
  compiled: loading the preset, the template check and the conversion all come after
  the write. Whenever the tool then throws, the registry file holds the rewritten entry
  at the end. The rest changes the registry file in one case only, which is not a
  failure: a conversion that succeeds and was given the registry file as its
  \<^verbatim>\<open>output_path\<close>.
\<close>

theorem compile_registry_not_rolled_back:
  assumes "isValidDocId (doc_id a)"
    and "readRegistry e w = Inr r"
    and "map_of (drafts r) (doc_id a) = Some info"
    and "getDocsBasePath (cwd e) (plugin_ctx e) = Inr docsBase"
    and "existsSync w (join (join docsBase (doc_id a)) ''draft.md'')"
  shows "\<exists>w1. docs_compile e w a =
            compile_draft e w1 a (info\<lparr>last_modified := clock e 0, status := StatusCompiled\<rparr>)
              (join docsBase (doc_id a)) (join (join docsBase (doc_id a)) ''draft.md'')
          \<and> registry_file w1 =
              Json (r\<lparr>drafts := AList.update (doc_id a)
                      (info\<lparr>last_modified := clock e 0, status := StatusCompiled\<rparr>) (drafts r)\<rparr>)
          \<and> cache w1 = cache w \<and> spawned w1 = spawned w
          \<and> (getRegistryPath (cwd e) (plugin_ctx e) \<noteq> Inr (or_empty (output_path a)) \<longrightarrow>
                registry_file (snd (docs_compile e w a)) = registry_file w1)
          \<and> (\<forall>err. fst (docs_compile e w a) = Inl err \<longrightarrow>
                registry_file (snd (docs_compile e w a)) =
                  Json (r\<lparr>drafts := AList.update (doc_id a)
                          (info\<lparr>last_modified := clock e 0, status := StatusCompiled\<rparr>) (drafts r)\<rparr>))"
proof -
  from compile_writes_first [OF assms] obtain w1 where
    w1: "docs_compile e w a =
            compile_draft e w1 a (info\<lparr>last_modified := clock e 0, status := StatusCompiled\<rparr>)
              (join docsBase (doc_id a)) (join (join docsBase (doc_id a)) ''draft.md'')"
      "registry_file w1 =
              Json (r\<lparr>drafts := AList.update (doc_id a)
                      (info\<lparr>last_modified := clock e 0, status := StatusCompiled\<rparr>) (drafts r)\<rparr>)"
      "cache w1 = cache w" "spawned w1 = spawned w"
    by blast
  let ?dir = "join docsBase (doc_id a)"
  have thrown: "registry_file (snd (docs_compile e w a)) = registry_file w1"
    if "fst (docs_compile e w a) = Inl err" for err
    using that unfolding w1(1) by (rule compile_draft_error_keeps_registry)
  have elsewhere: "registry_file (snd (docs_compile e w a)) = registry_file w1"
    if n: "getRegistryPath (cwd e) (plugin_ctx e) \<noteq> Inr (or_empty (output_path a))"
  proof -
    have "getRegistryPath (cwd e) (plugin_ctx e) \<noteq> Inr (join ?dir (doc_id a @ ''.pdf''))"
      using assms(4) by (rule draft_path_not_registry_path)
    then have "getRegistryPath (cwd e) (plugin_ctx e) \<noteq>
        Inr (if truthy (output_path a) then or_empty (output_path a)
             else join ?dir (doc_id a @ ''.pdf''))"
      using n by simp
    then show ?thesis
      unfolding w1(1) by (rule compile_draft_elsewhere_keeps_registry)
  qed
  show ?thesis
    using w1 thrown elsewhere by (intro exI [of _ w1]) (simp add: w1(2) [symmetric])
qed


theorem compile_registry_not_rolled_back_witness:
  "(\<exists>err. fst (docs_compile example_env drafted_world example_compile_args) = Inl err)
   \<and> registry_file drafted_world = Json \<lparr>drafts = [(''amber-apple-100'', draft_entry)]\<rparr>
   \<and> registry_file (snd (docs_compile example_env drafted_world example_compile_args)) =
       Json \<lparr>drafts = [(''amber-apple-100'',
                         draft_entry\<lparr>last_modified := ''2026-01-02T03:04:05.000Z'',
                                     status := StatusCompiled\<rparr>)]\<rparr>"
proof -
  obtain p c where l: "loadPreset (Suc 7) example_resolver Map.empty ''eisvogel'' None = (Inr p, c)"
      "template p = Some (no_template\<lparr>path := ''eisvogel.latex''\<rparr>)"
      "resolved_template_path p = None"
    using example_eisvogel_loaded by blast
  have l2: "loadPreset (stack_depth example_env) (resolver example_env) (cache drafted_world)
      (preset draft_entry) (c_logo example_compile_args) = (Inr p, c)"
    using l(1) by (simp add: example_stack drafted_facts draft_entry_def example_compile_args_def)
  have t: "path (no_template\<lparr>path := ''eisvogel.latex''\<rparr>) \<noteq> []"
    by (simp add: no_template_def)
  have n: "\<not> truthy (resolved_template_path p)"
    by (simp add: l(3) truthy_def)
  have v: "isValidDocId (doc_id example_compile_args)"
    using example_id_valid by (simp add: example_compile_args_def)
  have m: "map_of (drafts \<lparr>drafts = [(''amber-apple-100'', draft_entry)]\<rparr>)
      (doc_id example_compile_args) = Some draft_entry"
    by (simp add: example_compile_args_def)
  have x: "existsSync drafted_world
      (join (join ''/proj/.opencode/docs'' (doc_id example_compile_args)) ''draft.md'')"
    using drafted_facts(2) by (simp add: example_compile_args_def)
  have thrown: "\<exists>err. fst (docs_compile example_env drafted_world example_compile_args) = Inl err"
    using compile_template_missing [OF v drafted_facts(1) m example_paths(2) x l2 l(2) t n]
    by blast
  moreover have "registry_file drafted_world = Json \<lparr>drafts = [(''amber-apple-100'', draft_entry)]\<rparr>"
    by (simp add: drafted_world_def empty_world_def)
  moreover have "registry_file (snd (docs_compile example_env drafted_world example_compile_args)) =
       Json \<lparr>drafts = [(''amber-apple-100'',
                         draft_entry\<lparr>last_modified := ''2026-01-02T03:04:05.000Z'',
                                     status := StatusCompiled\<rparr>)]\<rparr>"
    using compile_registry_not_rolled_back [OF v drafted_facts(1) m example_paths(2) x] thrown
    by (auto simp: example_compile_args_def example_env_def)
  ultimately show ?thesis by blast
qed

section \<open>Installing clears the cache\<close>

lemma install_success_clears:
  "install_eisvogel e w = (Inr msg, w') \<Longrightarrow> cache w' = Map.empty"
  "install_eisvogel_legacy e w = (Inr msg, w') \<Longrightarrow> cache w' = Map.empty"
  "install_ieee e w = (Inr msg, w') \<Longrightarrow> cache w' = Map.empty"
  "install_csl e w src = (Inr msg, w') \<Longrightarrow> cache w' = Map.empty"
  by (auto simp: install_eisvogel_def install_eisvogel_legacy_def install_ieee_def
      install_csl_def run_proc_def clearCache_def Let_def split: prod.splits if_splits)

text \<open>
  C4. Every run of \<^verbatim>\<open>docs_templates_install\<close> that returns its success message, in
  either plugin file and for each of the five sources, ends with the preset cache empty:
  each of the three return statements is preceded by \<^verbatim>\<open>presetManager.clearCache()\<close>.
\<close>

theorem install_clears_cache:
  "(docs_templates_install e ensure w src = (Inr msg, w') \<longrightarrow> cache w' = Map.empty)
   \<and> (docs_templates_install_legacy e ensure w src = (Inr msg, w') \<longrightarrow> cache w' = Map.empty)"
  by (auto simp: docs_templates_install_def docs_templates_install_legacy_def
      split: sum.splits if_splits dest: install_success_clears)

lemma example_installs:
  "\<exists>msg. fst (docs_templates_install example_env Inr cached_world src) = Inr msg"
  "\<exists>msg. fst (docs_templates_install_legacy example_env Inr cached_world src) = Inr msg"
  by (cases src; simp add: docs_templates_install_def docs_templates_install_legacy_def
      install_eisvogel_def install_eisvogel_legacy_def install_ieee_def install_csl_def
      run_proc_def example_env_def Let_def split: prod.splits)+

theorem install_clears_cache_witness:
  "cache cached_world ''eisvogel:'' \<noteq> None
   \<and> (\<exists>msg. fst (docs_templates_install example_env Inr cached_world Eisvogel) = Inr msg)
   \<and> cache (snd (docs_templates_install example_env Inr cached_world Eisvogel)) = Map.empty
   \<and> cache (snd (docs_templates_install example_env Inr cached_world Ieee)) = Map.empty
   \<and> cache (snd (docs_templates_install example_env Inr cached_world CslIeee)) = Map.empty
   \<and> cache (snd (docs_templates_install example_env Inr cached_world CslApa)) = Map.empty
   \<and> cache (snd (docs_templates_install example_env Inr cached_world CslAcm)) = Map.empty
   \<and> cache (snd (docs_templates_install_legacy example_env Inr cached_world Eisvogel)) = Map.empty"
proof -
  have a: "\<And>src. cache (snd (docs_templates_install example_env Inr cached_world src)) = Map.empty"
  proof -
    fix src
    obtain msg where "docs_templates_install example_env Inr cached_world src
        = (Inr msg, snd (docs_templates_install example_env Inr cached_world src))"
      using example_installs(1) [of src] by (metis prod.collapse)
    then show "cache (snd (docs_templates_install example_env Inr cached_world src)) = Map.empty"
      using install_clears_cache [of example_env Inr cached_world src] by blast
  qed
  have b: "cache (snd (docs_templates_install_legacy example_env Inr cached_world Eisvogel)) = Map.empty"
  proof -
    obtain msg where "docs_templates_install_legacy example_env Inr cached_world Eisvogel
        = (Inr msg, snd (docs_templates_install_legacy example_env Inr cached_world Eisvogel))"
      using example_installs(2) [of Eisvogel] by (metis prod.collapse)
    then show ?thesis
      using install_clears_cache [of example_env Inr cached_world Eisvogel] by blast
  qed
  have "cache cached_world ''eisvogel:'' \<noteq> None"
    by (simp add: cached_world_def)
  then show ?thesis using a b example_installs(1) [of Eisvogel] by simp
qed

section \<open>The reason of a failed run\<close>

lemma exec_outcome_cases:
  "exitCode p = 0 \<Longrightarrow> exec_outcome p = Success (proc_stdout p)"
  "exitCode p \<noteq> 0 \<Longrightarrow> proc_stderr p \<noteq> [] \<Longrightarrow> exec_outcome p = Failure (proc_stderr p)"
  "exitCode p \<noteq> 0 \<Longrightarrow> proc_stderr p = [] \<Longrightarrow>
     exec_outcome p = Failure (join_with [newline] (slice_last 30 (split_chr newline (proc_stdout p))))"
  by (simp_all add: exec_outcome_def)

lemma builder_tools_surface_reason:
  assumes "exec_outcome (spawn_result e cmd dir) = Failure reason"
  shows "create_result (exec_outcome (spawn_result e cmd dir)) t
      = Inl (Error (''Failed:'' @ [newline] @ reason))"
  using assms by (simp add: create_result_def)

lemma convert_surfaces_reason:
  "fst (docs_convert e w inp fmt frm dir) =
     (case exec_outcome (spawn_result e
             (build (on_cond (truthy frm) (b_from (or_empty frm))
                (set_output (computeOutputPath inp dir fmt) (set_input inp new_builder)))) None) of
        Failure reason \<Rightarrow> Inl (Error (''Pandoc failed:'' @ [newline] @ reason))
      | Success out \<Rightarrow> Inr (''Converted '' @ inp @ '' to '' @ computeOutputPath inp dir fmt))"
  by (simp add: docs_convert_def execute_def Let_def split: exec_result.splits)

lemma compile_surfaces_reason:
  assumes "loadPreset (stack_depth e) (resolver e) (cache w) (preset info) (c_logo a) = (Inr p, c1)"
    and "\<not> template_missing p"
    and "authors_table e a dir
           (compile_builder e a p dp
              (if truthy (output_path a) then or_empty (output_path a)
               else join dir (doc_id a @ ''.pdf''))) (w\<lparr>cache := c1\<rparr>) = Inr (b, f, w2)"
    and "exec_outcome (spawn_result e (build b) None) = Failure reason"
  shows "fst (compile_draft e w a info dir dp)
      = Inl (Error (''Compilation failed:'' @ [newline] @ reason))"
  using assms by (simp add: compile_draft_def execute_def Let_def)

text \<open>
  C6 at \<^verbatim>\<open>docs_compile_latex\<close>: \<^verbatim>\<open>pdflatex\<close> exits with code 1, nothing on standard
  error and its message on standard output. The tool throws with an empty reason; the
  builder's \<^verbatim>\<open>execute\<close>, on the same process result, gives the output lines as the
  reason, and \<^verbatim>\<open>docs_convert\<close> throws them.
\<close>

theorem latex_failure_drops_stdout:
  "fst (docs_compile_latex failing_env empty_world ''/proj/paper.tex'' None)
     = Inl (Error (''Compilation failed:'' @ [newline]))
   \<and> exec_outcome (spawn_result failing_env
        [''pdflatex'', ''-output-directory'', ''/proj'', ''-interaction=nonstopmode'',
         ''/proj/paper.tex''] None)
     = Failure ''! Undefined control sequence.''
   \<and> fst (docs_convert failing_env empty_world ''/proj/paper.md'' ''pdf'' None None)
     = Inl (Error (''Pandoc failed:'' @ [newline] @ ''! Undefined control sequence.''))"
  by (simp add: docs_compile_latex_def failing_env_def example_env_def endsWith_def
      parent_dir_def truthy_def Let_def exec_outcome_def slice_last_def newline_def
      docs_convert_def execute_def)

section \<open>Loading a preset that extends another\<close>

lemma spread_Nil [simp]: "spread a [] = a"
  by (simp add: spread_def)

lemma spread_Cons [simp]: "spread a (kv # b) = spread (AList.update (fst kv) (snd kv) a) b"
  by (simp add: spread_def)





lemma or_else_None [simp]: "or_else None p = p" "or_else c None = c"
  by (simp_all add: or_else_def split: option.splits)















lemma locate_else_resolver:
  "map_of BUILTIN_PRESETS n = None \<Longrightarrow> n \<notin> set object_methods \<Longrightarrow> n \<noteq> ''__proto__'' \<Longrightarrow>
     locatePreset R n =
       (case scope_search (preset_scopes R) n of
          None \<Rightarrow> Inl (Error (''Preset '' @ [squote] @ n @ [squote]
                    @ '' not found. Available presets: '' @ join_with '', '' (listPresetNames R)))
        | Some found \<Rightarrow>
            (case preset_file R (fst found) of
               Inl err \<Rightarrow> Inl err
             | Inr cfg \<Rightarrow> Inr (cfg, fst found, snd found)))"
  by (simp add: locatePreset_def get_property_def resolvePreset_def)















end
